theory Spec2Isabelle
  imports Complex_Main "HOL-Library.AList"
begin

text \<open>
  A model of \<open>chartlib/chart_spec.py\<close>: the class \<open>ChartSpec\<close>, which compiles a dataframe
  and a configuration dictionary into a layered chart. Every method is a function of the
  configuration (and the frame); an exception is a value \<open>Inl e\<close> of a sum type; the one
  piece of state, the transient overlay, is a field of the configuration that the
  functions return updated. The definitions come first, method by method in the order of
  the source; the properties follow.
\<close>

section \<open>Python values\<close>

text \<open>
  A Python \<open>str\<close> is a sequence of Unicode code points. The emoji legend inspects single
  code points, so a string is a list of code point numbers; \<open>lit\<close> embeds an ASCII literal.
\<close>

type_synonym pystr = "nat list"

definition lit :: "string \<Rightarrow> pystr" where
  "lit s = map of_char s"

text \<open>
  Configuration values and dataframe cells are heterogeneous. \<open>PFloat\<close> stands for Python
  floats, read as real numbers (no NaN, no rounding); a null cell is \<open>PNone\<close>.
\<close>

datatype pyval =
    PNone
  | PBool bool
  | PInt int
  | PFloat real
  | PStr pystr
  | PList "pyval list"
  | PDict "(pyval \<times> pyval) list"

type_synonym pydict = "(pyval \<times> pyval) list"

datatype error =
    ValueError pystr
  | KeyError pyval
  | IndexError
  | TypeError
  | AttributeError

text \<open>Python's truth value of an object (\<open>not v\<close>, \<open>if v\<close>).\<close>

fun truthy :: "pyval \<Rightarrow> bool" where
  "truthy PNone = False"
| "truthy (PBool b) = b"
| "truthy (PInt i) = (i \<noteq> 0)"
| "truthy (PFloat r) = (r \<noteq> 0)"
| "truthy (PStr s) = (s \<noteq> [])"
| "truthy (PList xs) = (xs \<noteq> [])"
| "truthy (PDict m) = (m \<noteq> [])"

text \<open>
  Python's \<open>==\<close>: \<open>bool\<close>, \<open>int\<close> and \<open>float\<close> compare by numeric value
  (\<open>True == 1\<close>), lists elementwise, dicts regardless of insertion order.
\<close>

fun num_of :: "pyval \<Rightarrow> real option" where
  "num_of (PBool b) = Some (if b then 1 else 0)"
| "num_of (PInt i) = Some (of_int i)"
| "num_of (PFloat r) = Some r"
| "num_of _ = None"

fun py_eq :: "pyval \<Rightarrow> pyval \<Rightarrow> bool" where
  "py_eq (PList xs) (PList ys) = list_all2 py_eq xs ys"
| "py_eq (PDict m) (PDict n) = (length m = length n \<and>
     (\<forall>p\<in>set m. \<exists>q\<in>set n. py_eq (fst p) (fst q) \<and> py_eq (snd p) (snd q)))"
| "py_eq (PStr s) (PStr t) = (s = t)"
| "py_eq PNone PNone = True"
| "py_eq a b = (case (num_of a, num_of b) of (Some x, Some y) \<Rightarrow> x = y | _ \<Rightarrow> False)"

text \<open>Lists and dicts are unhashable: they are neither dict keys nor members of a hash table.\<close>

fun hashable :: "pyval \<Rightarrow> bool" where
  "hashable (PList xs) = False"
| "hashable (PDict m) = False"
| "hashable v = True"

subsection \<open>Dictionaries with insertion order\<close>

text \<open>
  A \<open>dict\<close> keeps its keys in insertion order; \<open>d[k] = v\<close> replaces the value of an
  existing key in place and appends a new key at the end.
\<close>

fun dict_get :: "pydict \<Rightarrow> pyval \<Rightarrow> pyval option" where
  "dict_get [] k = None"
| "dict_get ((k', v) # d) k = (if py_eq k' k then Some v else dict_get d k)"

definition dict_has :: "pydict \<Rightarrow> pyval \<Rightarrow> bool" where
  "dict_has d k = (dict_get d k \<noteq> None)"

fun dict_set :: "pydict \<Rightarrow> pyval \<Rightarrow> pyval \<Rightarrow> pydict" where
  "dict_set [] k v = [(k, v)]"
| "dict_set ((k', v') # d) k v = (if py_eq k' k then (k', v) # d else (k', v') # dict_set d k v)"

definition dict_keys :: "pydict \<Rightarrow> pyval list" where
  "dict_keys d = map fst d"

definition dict_values :: "pydict \<Rightarrow> pyval list" where
  "dict_values d = map snd d"

text \<open>\<open>v in xs\<close> for a list or a dict view.\<close>

definition py_in :: "pyval \<Rightarrow> pyval list \<Rightarrow> bool" where
  "py_in v xs = list_ex (\<lambda>x. py_eq x v) xs"

subsection \<open>Strings\<close>

text \<open>\<open>sep.join(parts)\<close>.\<close>

fun join :: "pystr \<Rightarrow> pystr list \<Rightarrow> pystr" where
  "join sep [] = []"
| "join sep [x] = x"
| "join sep (x # y # ys) = x @ sep @ join sep (y # ys)"

text \<open>\<open>str(n)\<close> of an integer: decimal digits, a minus sign for negatives.\<close>

fun digits :: "nat \<Rightarrow> pystr" where
  "digits n = (if n < 10 then [48 + n] else digits (n div 10) @ [48 + n mod 10])"

declare digits.simps [simp del]

definition str_int :: "int \<Rightarrow> pystr" where
  "str_int i = (if i < 0 then 45 # digits (nat (- i)) else digits (nat i))"

text \<open>
  What lies outside the sources is a parameter of the model:
  \<^item> \<open>missing_attr\<close>: \<open>DotDict\<close>, the base class of \<open>ChartSpec\<close>, is imported from a module
    that is not part of the sources. Modelled from the spec: it is ``a map with
    attribute-style field access''; reading an attribute whose key is present yields the
    stored value. What reading a missing key does is not fixed by the spec: \<open>None\<close> here
    means the read yields Python's \<open>None\<close>, \<open>Some f\<close> that it raises the error \<open>f key\<close>.
  \<^item> \<open>str_other\<close>: \<open>str()\<close> of floats, lists and dicts.
  \<^item> \<open>lower_other\<close>: \<open>str.lower()\<close> of a string with a code point beyond ASCII.
\<close>

record runtime =
  missing_attr :: "(string \<Rightarrow> error) option"
  str_other :: "pyval \<Rightarrow> pystr"
  lower_other :: "pystr \<Rightarrow> pystr"

definition py_str :: "runtime \<Rightarrow> pyval \<Rightarrow> pystr" where
  "py_str rt v =
     (case v of
        PNone \<Rightarrow> lit ''None''
      | PBool b \<Rightarrow> (if b then lit ''True'' else lit ''False'')
      | PInt i \<Rightarrow> str_int i
      | PStr s \<Rightarrow> s
      | _ \<Rightarrow> str_other rt v)"

definition py_lower :: "runtime \<Rightarrow> pystr \<Rightarrow> pystr" where
  "py_lower rt s =
     (if \<forall>c\<in>set s. c < 128
      then map (\<lambda>c. if 65 \<le> c \<and> c \<le> 90 then c + 32 else c) s
      else lower_other rt s)"

section \<open>The configuration: \<open>ChartSpec\<close>\<close>

text \<open>
  \<open>ChartSpec\<close> is a dictionary from string keys to values. The code reads it only under
  literal keys, so it is a map from keys to values. The entry under the key
  \<open>'transient'\<close> is the overlay: the class only ever stores a fresh \<open>DotDict\<close> there
  (in \<open>compile\<close>), so it is a field of its own, \<open>None\<close> when the key is absent or holds
  Python's \<open>None\<close>.
\<close>

type_synonym dotdict = "string \<rightharpoonup> pyval"

record config =
  entries :: dotdict
  transient :: "dotdict option"

text \<open>A dataframe: column label to the cells of the column, one per row.\<close>

type_synonym dataframe = "pystr \<rightharpoonup> pyval list"

definition click :: pystr where "click = lit ''click''"
definition cursor :: pystr where "cursor = lit ''cursor''"
definition legend :: pystr where "legend = lit ''legend''"
definition X :: pystr where "X = lit ''x''"
definition Y :: pystr where "Y = lit ''y''"
definition normal_type :: pystr where "normal_type = lit ''normal''"
definition lockdown_type :: pystr where "lockdown_type = lit ''lockdown''"

definition DEFAULT_HEIGHT :: int where "DEFAULT_HEIGHT = 400"
definition DEFAULT_WIDTH :: int where "DEFAULT_WIDTH = 600"
definition DEFAULT_POINT_SIZE :: int where "DEFAULT_POINT_SIZE = 45"
definition DEFAULT_UNFOCUSED_OPACITY :: real where "DEFAULT_UNFOCUSED_OPACITY = 0.08"
definition DEFAULT_AXES_TITLE_FONTSIZE :: int where "DEFAULT_AXES_TITLE_FONTSIZE = 16"
definition DEFAULT_BACKGROUND_COLOR :: pystr where "DEFAULT_BACKGROUND_COLOR = lit ''white''"
definition DEFAULT_MIN_TREND_LINE_DAYS :: int where "DEFAULT_MIN_TREND_LINE_DAYS = 5"
definition DEFAULT_FONT :: pystr where "DEFAULT_FONT = lit ''Khula''"
definition MAX_LEGEND_MARKS :: nat where "MAX_LEGEND_MARKS = 33"
definition MAX_EMOJI_LEGEND_MARKS :: nat where "MAX_EMOJI_LEGEND_MARKS = 7"
definition EMPTY_SELECTION :: pystr where "EMPTY_SELECTION = []"

text \<open>
  \<open>COLOR_SCHEME\<close>: the hexadecimal string cut into pieces \<open>s[i:i+6]\<close> for
  \<open>i in range(0, 1000, 6)\<close>, the empty pieces dropped, \<open>'#'\<close> put in front of each,
  followed by five named colours.
\<close>

definition color_hex :: string where
  "color_hex =
     ''4e79a7f28e2ce1575976b7b259a14fedc949af7aa1ff9da79c755fbab0ab'' @
     ''1f77b4ff7f0e2ca02cd627289467bd8c564be377c27f7f7fbcbd2217becf'' @
     ''a6cee31f78b4b2df8a33a02cfb9a99e31a1cfdbf6fff7f00cab2d66a3d9affff99b15928'' @
     ''7fc97fbeaed4fdc086ffff99386cb0f0027fbf5b17666666'' @
     ''1b9e77d95f027570b3e7298a66a61ee6ab02a6761d666666''"

definition COLOR_SCHEME :: "pystr list" where
  "COLOR_SCHEME =
     map (\<lambda>y. lit ''#'' @ y)
       (filter (\<lambda>x. x \<noteq> [])
          (map (\<lambda>k. lit (take 6 (drop (6 * k) color_hex))) [0..<167]))
     @ [lit ''red'', lit ''blue'', lit ''green'', lit ''purple'', lit ''orange'']"

text \<open>\<open>self.get(key, default)\<close>, the dictionary's own lookup.\<close>

definition cfg_get :: "config \<Rightarrow> string \<Rightarrow> pyval \<Rightarrow> pyval" where
  "cfg_get cfg key dflt = (case entries cfg key of Some v \<Rightarrow> v | None \<Rightarrow> dflt)"

text \<open>\<open>self.key\<close>, the attribute read that \<open>DotDict\<close> provides.\<close>

definition getattr :: "runtime \<Rightarrow> config \<Rightarrow> string \<Rightarrow> error + pyval" where
  "getattr rt cfg key =
     (case entries cfg key of
        Some v \<Rightarrow> Inr v
      | None \<Rightarrow> (case missing_attr rt of None \<Rightarrow> Inr PNone | Some f \<Rightarrow> Inl (f key)))"

definition prefer_transient :: "config \<Rightarrow> string \<Rightarrow> pyval \<Rightarrow> pyval" where
  "prefer_transient cfg key dflt =
     (case transient cfg of
        None \<Rightarrow> cfg_get cfg key dflt
      | Some t \<Rightarrow> (case t key of Some v \<Rightarrow> v | None \<Rightarrow> cfg_get cfg key dflt))"

definition font :: "config \<Rightarrow> pyval" where
  "font cfg = cfg_get cfg ''font'' (PStr DEFAULT_FONT)"

definition colorby :: "config \<Rightarrow> pyval" where
  "colorby cfg = prefer_transient cfg ''colorby'' PNone"

definition detailby :: "config \<Rightarrow> pyval" where
  "detailby cfg = prefer_transient cfg ''detailby'' PNone"

definition colormap :: "config \<Rightarrow> pyval" where
  "colormap cfg = prefer_transient cfg ''colormap'' PNone"

definition yscale :: "config \<Rightarrow> pyval" where
  "yscale cfg = cfg_get cfg ''yscale'' (PStr (lit ''linear''))"

definition height :: "config \<Rightarrow> pyval" where
  "height cfg = cfg_get cfg ''height'' (PInt DEFAULT_HEIGHT)"

definition width :: "config \<Rightarrow> pyval" where
  "width cfg = cfg_get cfg ''width'' (PInt DEFAULT_WIDTH)"

definition manual_legend :: "config \<Rightarrow> pyval" where
  "manual_legend cfg = cfg_get cfg ''use_manual_legend'' (PBool False)"

subsection \<open>Validation\<close>

definition is_dict :: "pyval \<Rightarrow> bool" where
  "is_dict v = (case v of PDict m \<Rightarrow> True | _ \<Rightarrow> False)"

text \<open>
  \<open>self.detailby != self.colorby\<close>: both attribute reads, then Python's \<open>!=\<close>.
\<close>

definition detail_color_differ :: "runtime \<Rightarrow> config \<Rightarrow> error + bool" where
  "detail_color_differ rt cfg =
     (case getattr rt cfg ''detailby'' of
        Inl e \<Rightarrow> Inl e
      | Inr d \<Rightarrow>
          (case getattr rt cfg ''colorby'' of
             Inl e \<Rightarrow> Inl e
           | Inr c \<Rightarrow> Inr (\<not> py_eq d c)))"

definition validate_legend :: "runtime \<Rightarrow> config \<Rightarrow> error + unit" where
  "validate_legend rt cfg =
     (if truthy (cfg_get cfg ''legend_selection'' (PBool False)) then
        (case detail_color_differ rt cfg of
           Inl e \<Rightarrow> Inl e
         | Inr differ \<Rightarrow>
             if differ
             then Inl (ValueError (lit
                    ''when legend selection enabled, detailby and colorby should be identical''))
             else Inr ())
      else Inr ())"

definition validate :: "runtime \<Rightarrow> config \<Rightarrow> dataframe \<Rightarrow> error + unit" where
  "validate rt cfg df =
     (if entries cfg ''lines'' = None \<and> entries cfg ''points'' = None then
        Inl (ValueError (lit ''should have at least one of lines or points''))
      else if df X = None then
        Inl (ValueError (lit ''dataframe should have an x column''))
      else if df Y = None then
        Inl (ValueError (lit ''dataframe should have a y column''))
      else if \<not> truthy (cfg_get cfg ''click_selection'' (PBool False))
            \<and> \<not> truthy (cfg_get cfg ''legend_selection'' (PBool False)) then
        Inl (ValueError (lit ''one of click or legend selection should be specified''))
      else
        (let cm = cfg_get cfg ''colormap'' PNone in
         if cm \<noteq> PNone then
           (case detail_color_differ rt cfg of
              Inl e \<Rightarrow> Inl e
            | Inr differ \<Rightarrow>
                if differ then
                  Inl (ValueError (lit
                    ''when colormap specified, detailby and colorby should be identical''))
                else if \<not> is_dict cm then
                  Inl (ValueError (lit ''expected dictionary for colormap''))
                else validate_legend rt cfg)
         else validate_legend rt cfg))"

section \<open>Focus predicates in the renderer's expression language\<close>

definition ensure_parens :: "pystr \<Rightarrow> pystr" where
  \<open>ensure_parens expr = lit ''('' @ expr @ lit '')''\<close>

definition click_is_active :: "runtime \<Rightarrow> config \<Rightarrow> pystr" where
  \<open>click_is_active rt cfg =
     ensure_parens (join (lit '' && '')
       [py_lower rt (py_str rt (cfg_get cfg ''click_selection'' (PBool False))),
        lit ''isValid('' @ click @ lit ''.'' @ py_str rt (detailby cfg) @ lit '')'',
        click @ lit ''.'' @ py_str rt (detailby cfg) @ lit '' != "'' @ EMPTY_SELECTION @ lit ''"''])\<close>

definition old_legend_is_active :: "runtime \<Rightarrow> config \<Rightarrow> pystr" where
  \<open>old_legend_is_active rt cfg =
     (let conditions =
        [py_lower rt (py_str rt (cfg_get cfg ''legend_selection'' (PBool False))),
         lit ''isDefined('' @ legend @ lit ''.'' @ py_str rt (detailby cfg) @ lit '')'',
         lit ''(!isDefined('' @ click @ lit '') || !isDefined('' @ click @ lit ''_''
           @ py_str rt (detailby cfg) @ lit ''))''];
      conditions =
        (if cfg_get cfg ''facetby'' PNone = PNone then
           conditions @
             [lit ''isValid('' @ legend @ lit ''_tuple)'',
              lit ''!isDefined('' @ legend @ lit ''_tuple.unit)'']
         else
           conditions @
             [lit ''isValid('' @ legend @ lit ''_'' @ py_str rt (detailby cfg) @ lit ''_legend)''])
      in ensure_parens (join (lit '' && '') conditions))\<close>

definition legend_is_active :: "runtime \<Rightarrow> config \<Rightarrow> pystr" where
  \<open>legend_is_active rt cfg =
     (if \<not> truthy (manual_legend cfg) then old_legend_is_active rt cfg
      else ensure_parens (join (lit '' && '')
             [lit ''isValid(legend_hover)'',
              lit ''isValid(legend_hover.group_idx)'',
              lit ''legend_hover.group_idx > -1'']))\<close>

definition click_focused :: "runtime \<Rightarrow> config \<Rightarrow> pystr" where
  \<open>click_focused rt cfg =
     ensure_parens (join (lit '' && '')
       [click_is_active rt cfg,
        lit ''indexof('' @ click @ lit ''.'' @ py_str rt (detailby cfg) @ lit '', datum.''
          @ py_str rt (detailby cfg) @ lit '') >= 0''])\<close>

definition old_legend_focused :: "runtime \<Rightarrow> config \<Rightarrow> pystr" where
  \<open>old_legend_focused rt cfg =
     ensure_parens (join (lit '' && '')
       [legend_is_active rt cfg,
        lit ''indexof('' @ legend @ lit ''.'' @ py_str rt (detailby cfg) @ lit '', datum.''
          @ py_str rt (detailby cfg) @ lit '') >= 0''])\<close>

definition legend_hover_focused :: "runtime \<Rightarrow> config \<Rightarrow> pystr" where
  \<open>legend_hover_focused rt cfg =
     (if \<not> truthy (manual_legend cfg) then old_legend_focused rt cfg
      else ensure_parens (join (lit '' && '')
             [legend_is_active rt cfg,
              lit ''datum.group_idx == legend_hover.group_idx'']))\<close>

definition in_focus :: "runtime \<Rightarrow> config \<Rightarrow> pystr" where
  \<open>in_focus rt cfg =
     ensure_parens (click_focused rt cfg @ lit '' || '' @ legend_hover_focused rt cfg)\<close>

definition someone_has_focus :: "runtime \<Rightarrow> config \<Rightarrow> pystr" where
  \<open>someone_has_focus rt cfg =
     ensure_parens (click_is_active rt cfg @ lit '' || '' @ legend_is_active rt cfg)\<close>

definition in_focus_or_none_selected :: "runtime \<Rightarrow> config \<Rightarrow> pystr" where
  \<open>in_focus_or_none_selected rt cfg =
     ensure_parens (in_focus rt cfg @ lit '' || !'' @ someone_has_focus rt cfg)\<close>

definition click_focused_or_none_selected :: "runtime \<Rightarrow> config \<Rightarrow> pystr" where
  \<open>click_focused_or_none_selected rt cfg =
     ensure_parens (click_focused rt cfg @ lit '' || !'' @ someone_has_focus rt cfg)\<close>

definition legend_focused_or_none_selected :: "runtime \<Rightarrow> config \<Rightarrow> pystr" where
  \<open>legend_focused_or_none_selected rt cfg =
     ensure_parens (legend_hover_focused rt cfg @ lit '' || !'' @ someone_has_focus rt cfg)\<close>

definition show_events :: pystr where
  \<open>show_events = lit ''events.values[0]''\<close>

definition hide_regional_icons :: pystr where
  \<open>hide_regional_icons = lit ''hide_regional_icons.values[0]''\<close>

definition show_trends :: "config \<Rightarrow> pystr" where
  \<open>show_trends cfg =
     (if truthy (manual_legend cfg) then lit ''trends.values[0]''
      else lit ''!isValid(trends_tuple) || trends_tuple.values[0]'')\<close>

subsection \<open>What the expressions mean to the renderer\<close>

text \<open>
  The compiler only writes the expressions; the renderer evaluates them for each datum
  and selection state. To speak of their truth, an expression is read as a term over
  atoms (the conditions the code joins), with \<open>&&\<close>, \<open>||\<close> and \<open>!\<close> taken by their
  truth value as JavaScript does; \<open>render\<close> writes a term the way the code
  writes it, every \<open>&&\<close> and \<open>||\<close> inside parentheses.
\<close>

datatype bexpr =
    Atom pystr
  | Conj "bexpr list"
  | Disj bexpr bexpr
  | Neg bexpr

fun render :: "bexpr \<Rightarrow> pystr" where
  \<open>render (Atom s) = s\<close>
| \<open>render (Conj es) = ensure_parens (join (lit '' && '') (map render es))\<close>
| \<open>render (Disj a b) = ensure_parens (render a @ lit '' || '' @ render b)\<close>
| \<open>render (Neg a) = lit ''!'' @ render a\<close>

text \<open>The truth of a term when \<open>\<sigma>\<close> gives the truth of each atom.\<close>

fun holds :: "(pystr \<Rightarrow> bool) \<Rightarrow> bexpr \<Rightarrow> bool" where
  "holds \<sigma> (Atom s) = \<sigma> s"
| "holds \<sigma> (Conj es) = (\<forall>e\<in>set es. holds \<sigma> e)"
| "holds \<sigma> (Disj a b) = (holds \<sigma> a \<or> holds \<sigma> b)"
| "holds \<sigma> (Neg a) = (\<not> holds \<sigma> a)"

definition click_is_active_term :: "runtime \<Rightarrow> config \<Rightarrow> bexpr" where
  \<open>click_is_active_term rt cfg =
     Conj [Atom (py_lower rt (py_str rt (cfg_get cfg ''click_selection'' (PBool False)))),
           Atom (lit ''isValid('' @ click @ lit ''.'' @ py_str rt (detailby cfg) @ lit '')''),
           Atom (click @ lit ''.'' @ py_str rt (detailby cfg) @ lit '' != "''
                   @ EMPTY_SELECTION @ lit ''"'')]\<close>

definition legend_is_active_term :: "runtime \<Rightarrow> config \<Rightarrow> bexpr" where
  \<open>legend_is_active_term rt cfg =
     (if \<not> truthy (manual_legend cfg) then
        Conj (map Atom
          ([py_lower rt (py_str rt (cfg_get cfg ''legend_selection'' (PBool False))),
            lit ''isDefined('' @ legend @ lit ''.'' @ py_str rt (detailby cfg) @ lit '')'',
            lit ''(!isDefined('' @ click @ lit '') || !isDefined('' @ click @ lit ''_''
              @ py_str rt (detailby cfg) @ lit ''))'']
           @ (if cfg_get cfg ''facetby'' PNone = PNone then
                [lit ''isValid('' @ legend @ lit ''_tuple)'',
                 lit ''!isDefined('' @ legend @ lit ''_tuple.unit)'']
              else
                [lit ''isValid('' @ legend @ lit ''_'' @ py_str rt (detailby cfg)
                   @ lit ''_legend)''])))
      else
        Conj [Atom (lit ''isValid(legend_hover)''),
              Atom (lit ''isValid(legend_hover.group_idx)''),
              Atom (lit ''legend_hover.group_idx > -1'')])\<close>

definition click_focused_term :: "runtime \<Rightarrow> config \<Rightarrow> bexpr" where
  \<open>click_focused_term rt cfg =
     Conj [click_is_active_term rt cfg,
           Atom (lit ''indexof('' @ click @ lit ''.'' @ py_str rt (detailby cfg)
                   @ lit '', datum.'' @ py_str rt (detailby cfg) @ lit '') >= 0'')]\<close>

definition legend_hover_focused_term :: "runtime \<Rightarrow> config \<Rightarrow> bexpr" where
  \<open>legend_hover_focused_term rt cfg =
     (if \<not> truthy (manual_legend cfg) then
        Conj [legend_is_active_term rt cfg,
              Atom (lit ''indexof('' @ legend @ lit ''.'' @ py_str rt (detailby cfg)
                      @ lit '', datum.'' @ py_str rt (detailby cfg) @ lit '') >= 0'')]
      else
        Conj [legend_is_active_term rt cfg,
              Atom (lit ''datum.group_idx == legend_hover.group_idx'')])\<close>

definition in_focus_term :: "runtime \<Rightarrow> config \<Rightarrow> bexpr" where
  "in_focus_term rt cfg = Disj (click_focused_term rt cfg) (legend_hover_focused_term rt cfg)"

definition someone_has_focus_term :: "runtime \<Rightarrow> config \<Rightarrow> bexpr" where
  "someone_has_focus_term rt cfg =
     Disj (click_is_active_term rt cfg) (legend_is_active_term rt cfg)"

definition in_focus_or_none_selected_term :: "runtime \<Rightarrow> config \<Rightarrow> bexpr" where
  "in_focus_or_none_selected_term rt cfg =
     Disj (in_focus_term rt cfg) (Neg (someone_has_focus_term rt cfg))"

section \<open>Dataframe columns\<close>

text \<open>
  \<open>df[key]\<close>: the labels of a frame are strings here, so a key that is not the label of a
  column has no column and the read raises.
\<close>

definition df_col :: "dataframe \<Rightarrow> pyval \<Rightarrow> error + pyval list" where
  "df_col df key =
     (case key of
        PStr s \<Rightarrow> (case df s of Some cells \<Rightarrow> Inr cells | None \<Rightarrow> Inl (KeyError key))
      | _ \<Rightarrow> Inl (KeyError key))"

text \<open>
  \<open>Series.unique()\<close>: the distinct cells in the order of their first occurrence, through a
  hash table, so an unhashable cell raises.
\<close>

primrec unique_from :: "pyval list \<Rightarrow> pyval list \<Rightarrow> pyval list" where
  "unique_from seen [] = []"
| "unique_from seen (x # xs) =
     (if py_in x seen then unique_from seen xs else x # unique_from (x # seen) xs)"

definition unique :: "pyval list \<Rightarrow> error + pyval list" where
  "unique cells = (if list_all hashable cells then Inr (unique_from [] cells) else Inl TypeError)"

section \<open>Colour assignment\<close>

text \<open>
  The inner \<open>while\<close> loop: advance the cursor past every palette entry that is a value of
  the mapping; indexing past the end of the palette raises \<open>IndexError\<close>.
\<close>

function skip_used :: "nat \<Rightarrow> pyval list \<Rightarrow> error + nat" where
  "skip_used idx vals =
     (if length COLOR_SCHEME \<le> idx then Inl IndexError
      else if py_in (PStr (COLOR_SCHEME ! idx)) vals then skip_used (idx + 1) vals
      else Inr idx)"
  by pat_completeness auto
termination
  by (relation "measure (\<lambda>(idx, vals). length COLOR_SCHEME - idx)") auto

declare skip_used.simps [simp del]

text \<open>The \<open>for\<close> loop over the groups; the state is the mapping and the palette cursor.\<close>

fun assign_colors :: "pydict \<Rightarrow> nat \<Rightarrow> pyval \<Rightarrow> pyval list \<Rightarrow> error + pydict" where
  "assign_colors cm idx default_color [] = Inr cm"
| "assign_colors cm idx default_color (g # gs) =
     (if dict_has cm g then assign_colors cm idx default_color gs
      else if default_color \<noteq> PNone then
        assign_colors (dict_set cm g default_color) idx default_color gs
      else
        (case skip_used idx (dict_values cm) of
           Inl e \<Rightarrow> Inl e
         | Inr i \<Rightarrow>
             assign_colors (dict_set cm g (PStr (COLOR_SCHEME ! i))) (i + 1) default_color gs))"

text \<open>\<open>dict(colormap)\<close>: a copy of a dictionary; a value that is no mapping is refused.\<close>

definition py_dict :: "pyval \<Rightarrow> error + pydict" where
  "py_dict v = (case v of PDict m \<Rightarrow> Inr m | _ \<Rightarrow> Inl TypeError)"

text \<open>
  \<open>self[self.TRANSIENT][key] = value\<close>: the value is evaluated first, then the overlay is
  looked up, which raises \<open>KeyError\<close> when there is none.
\<close>

definition set_transient :: "config \<Rightarrow> string \<Rightarrow> pyval \<Rightarrow> error + config" where
  "set_transient cfg key v =
     (case transient cfg of
        None \<Rightarrow> Inl (KeyError (PStr (lit ''transient'')))
      | Some t \<Rightarrow> Inr (cfg\<lparr>transient := Some (t(key \<mapsto> v))\<rparr>))"

definition populate_transient_colormap :: "config \<Rightarrow> dataframe \<Rightarrow> error + config" where
  "populate_transient_colormap cfg df =
     (let cm = cfg_get cfg ''colormap'' PNone in
      if cm = PNone then Inr cfg
      else
        (case py_dict cm of
           Inl e \<Rightarrow> Inl e
         | Inr cm0 \<Rightarrow>
             (let default_color = cfg_get cfg ''default_color'' PNone in
              case df_col df (colorby cfg) of
                Inl e \<Rightarrow> Inl e
              | Inr cells \<Rightarrow>
                  (case unique cells of
                     Inl e \<Rightarrow> Inl e
                   | Inr groups \<Rightarrow>
                       (case assign_colors cm0 0 default_color groups of
                          Inl e \<Rightarrow> Inl e
                        | Inr cm1 \<Rightarrow> set_transient cfg ''colormap'' (PDict cm1))))))"

definition get_old_legend_title :: "runtime \<Rightarrow> config \<Rightarrow> error + pyval" where
  "get_old_legend_title rt cfg =
     (let readable_group_name = cfg_get cfg ''readable_group_name'' PNone in
      if readable_group_name \<noteq> PNone
         \<and> truthy (cfg_get cfg ''legend_selection'' (PBool False)) then
        Inr (PStr (lit ''Select_'' @ py_str rt readable_group_name))
      else if readable_group_name \<noteq> PNone then Inr readable_group_name
      else getattr rt cfg ''colorby'')"

definition populate_transient_props :: "runtime \<Rightarrow> config \<Rightarrow> dataframe \<Rightarrow> error + config" where
  "populate_transient_props rt cfg df =
     (case populate_transient_colormap cfg df of
        Inl e \<Rightarrow> Inl e
      | Inr cfg1 \<Rightarrow>
          (let readable_group_name = cfg_get cfg1 ''readable_group_name'' PNone in
           if readable_group_name \<noteq> PNone
              \<and> truthy (cfg_get cfg1 ''legend_selection'' (PBool False)) then
             (case get_old_legend_title rt cfg1 of
                Inl e \<Rightarrow> Inl e
              | Inr title1 \<Rightarrow>
                  (case set_transient cfg1 ''colorby'' title1 of
                     Inl e \<Rightarrow> Inl e
                   | Inr cfg2 \<Rightarrow>
                       (case get_old_legend_title rt cfg2 of
                          Inl e \<Rightarrow> Inl e
                        | Inr title2 \<Rightarrow> set_transient cfg2 ''detailby'' title2)))
           else Inr cfg1))"

text \<open>
  The palette entries from a cursor on that are no value of a mapping: what is left for
  the groups the mapping does not cover.
\<close>

definition unused_from :: "nat \<Rightarrow> pyval list \<Rightarrow> pystr set" where
  "unused_from idx vals = {c \<in> set (drop idx COLOR_SCHEME). PStr c \<notin> set vals}"

definition unused_colors :: "pyval list \<Rightarrow> pystr set" where
  "unused_colors vals = unused_from 0 vals"

section \<open>Emoji segmentation\<close>

text \<open>
  The two code points the generator tests for: the zero-width joiner \<open>U+200D\<close> and the
  variation selector \<open>U+FE0F\<close>.
\<close>

definition is_sep :: "nat \<Rightarrow> bool" where
  "is_sep c = (c = 0x200D \<or> c = 0xFE0F)"

text \<open>
  The loop of \<open>_emoji_gen\<close> over \<open>emojis_flattened[1:]\<close>; the result lists the tokens in
  the order they are yielded, the current token last.
\<close>

fun emoji_loop :: "pystr \<Rightarrow> bool \<Rightarrow> nat list \<Rightarrow> pystr list" where
  "emoji_loop cur_emoji saw_sep [] = [cur_emoji]"
| "emoji_loop cur_emoji saw_sep (c # cs) =
     (if \<not> saw_sep \<and> \<not> is_sep c then cur_emoji # emoji_loop [c] (is_sep c) cs
      else emoji_loop (cur_emoji @ [c]) (is_sep c) cs)"

text \<open>\<open>emojis_flattened[0]\<close> raises \<open>IndexError\<close> on an empty sequence.\<close>

definition emoji_gen :: "nat list \<Rightarrow> error + pystr list" where
  "emoji_gen emojis_flattened =
     (case emojis_flattened of
        [] \<Rightarrow> Inl IndexError
      | c # cs \<Rightarrow> Inr (emoji_loop [c] False cs))"

text \<open>
  The segmentation rule in the specification's words, for comparison: scanning the code
  points, a joiner or selector extends the current token, and any other code point
  starts a new token unless the previous code point was a joiner or selector. \<open>prev\<close> is
  the code point before the one being scanned.
\<close>

fun spec_scan :: "pystr \<Rightarrow> nat \<Rightarrow> nat list \<Rightarrow> pystr list" where
  "spec_scan cur prev [] = [cur]"
| "spec_scan cur prev (c # cs) =
     (if is_sep c \<or> is_sep prev then spec_scan (cur @ [c]) c cs
      else cur # spec_scan [c] c cs)"

definition spec_segmentation :: "nat list \<Rightarrow> pystr list" where
  "spec_segmentation cps = (case cps of [] \<Rightarrow> [] | c # cs \<Rightarrow> spec_scan [c] c cs)"

section \<open>The chart document\<close>

text \<open>
  The charting library is an external collaborator: its constructors are taken to build
  the object they are given and never to fail. A layer records what the code passes to
  them: the data, the mark with its keyword arguments, the encoding channels, the
  transforms in the order they are chained, and the selections added.
\<close>

type_synonym kwargs = "(pystr \<times> pyval) list"

datatype predicate =
    Expr pystr
  | Param pystr

datatype channel =
    Field pystr kwargs
  | Value pyval
  | Condition predicate channel channel

datatype transform =
    Filter predicate
  | Calculate pystr pystr

record selection =
  sel_type :: pystr
  sel_args :: kwargs

datatype chart_data =
    Frame dataframe
  | Table pydict

record layer =
  data :: chart_data
  chart_args :: kwargs
  mark :: "pystr option"
  mark_args :: kwargs
  encoding :: "(pystr \<times> channel) list"
  transforms :: "transform list"
  selections :: "selection list"

definition Chart :: "chart_data \<Rightarrow> kwargs \<Rightarrow> layer" where
  "Chart d args =
     \<lparr>data = d, chart_args = args, mark = None, mark_args = [], encoding = [],
      transforms = [], selections = []\<rparr>"

definition set_mark :: "pystr \<Rightarrow> kwargs \<Rightarrow> layer \<Rightarrow> layer" where
  "set_mark m args l = l\<lparr>mark := Some m, mark_args := args\<rparr>"

text \<open>\<open>encode(**kwargs)\<close> adds the channels given to those the chart already has.\<close>

definition encode :: "(pystr \<times> channel) list \<Rightarrow> layer \<Rightarrow> layer" where
  "encode chans l = l\<lparr>encoding := foldl (\<lambda>enc (k, c). AList.update k c enc) (encoding l) chans\<rparr>"

definition transform_filter :: "predicate \<Rightarrow> layer \<Rightarrow> layer" where
  "transform_filter p l = l\<lparr>transforms := transforms l @ [Filter p]\<rparr>"

text \<open>\<open>transform_calculate(**kwargs)\<close>: one calculate transform for each keyword.\<close>

definition transform_calculate :: "(pystr \<times> pystr) list \<Rightarrow> layer \<Rightarrow> layer" where
  "transform_calculate calcs l =
     l\<lparr>transforms := transforms l @ map (\<lambda>(name, expr). Calculate name expr) calcs\<rparr>"

definition add_selection :: "selection \<Rightarrow> layer \<Rightarrow> layer" where
  "add_selection s l = l\<lparr>selections := selections l @ [s]\<rparr>"

definition sel_name :: "selection \<Rightarrow> pyval" where
  "sel_name s = (case map_of (sel_args s) (lit ''name'') of Some v \<Rightarrow> v | None \<Rightarrow> PNone)"

text \<open>A selection used as the predicate of a condition or a filter.\<close>

definition by_selection :: "selection \<Rightarrow> predicate" where
  "by_selection s = (case sel_name s of PStr n \<Rightarrow> Param n | _ \<Rightarrow> Param [])"

text \<open>\<open>alt.Scale(...)\<close>, \<open>alt.Axis(...)\<close>: objects holding their keyword arguments.\<close>

definition obj :: "kwargs \<Rightarrow> pyval" where
  "obj args = PDict (map (\<lambda>(k, v). (PStr k, v)) args)"

text \<open>
  In \<open>_get_x\<close> and \<open>_get_y\<close> the reads \<open>self.xdomain\<close> and \<open>self.ydomain\<close> happen under the
  test that the key is present, so they yield the stored value.
\<close>

definition get_x :: "config \<Rightarrow> pystr \<Rightarrow> channel" where
  "get_x cfg shorthand =
     (let xaxis_kwargs = [];
          xaxis_kwargs =
            (case entries cfg ''xdomain'' of
               Some d \<Rightarrow> AList.update (lit ''scale'') (obj [(lit ''domain'', d)]) xaxis_kwargs
             | None \<Rightarrow> xaxis_kwargs);
          xtitle = cfg_get cfg ''xtitle'' PNone;
          xaxis_kwargs =
            (if xtitle \<noteq> PNone then AList.update (lit ''title'') xtitle xaxis_kwargs
             else xaxis_kwargs);
          xaxis_kwargs =
            (case entries cfg ''grid'' of
               Some g \<Rightarrow> AList.update (lit ''axis'') (obj [(lit ''grid'', g)]) xaxis_kwargs
             | None \<Rightarrow> xaxis_kwargs)
      in Field shorthand xaxis_kwargs)"

definition get_y :: "config \<Rightarrow> pystr \<Rightarrow> kwargs \<Rightarrow> channel" where
  "get_y cfg shorthand yaxis_kwargs0 =
     (let yaxis_kwargs =
            (if map_of yaxis_kwargs0 (lit ''scale'') = None then
               (let yscale = cfg_get cfg ''yscale'' (PStr (lit ''linear'')) in
                case entries cfg ''ydomain'' of
                  Some d \<Rightarrow>
                    AList.update (lit ''scale'')
                      (obj [(lit ''type'', yscale), (lit ''domain'', d)]) yaxis_kwargs0
                | None \<Rightarrow>
                    AList.update (lit ''scale'') (obj [(lit ''type'', yscale)]) yaxis_kwargs0)
             else yaxis_kwargs0);
          ytitle = cfg_get cfg ''ytitle'' PNone;
          yaxis_kwargs =
            (if ytitle \<noteq> PNone then AList.update (lit ''title'') ytitle yaxis_kwargs
             else yaxis_kwargs);
          yaxis_kwargs =
            (case entries cfg ''grid'' of
               Some g \<Rightarrow> AList.update (lit ''axis'') (obj [(lit ''grid'', g)]) yaxis_kwargs
             | None \<Rightarrow> yaxis_kwargs)
      in Field shorthand yaxis_kwargs)"

definition alt_detail :: "runtime \<Rightarrow> config \<Rightarrow> channel" where
  "alt_detail rt cfg = Field (py_str rt (detailby cfg) @ lit '':N'') []"

text \<open>
  \<open>_alt_color\<close>: \<open>colormap.keys()\<close> and \<open>colormap.values()\<close> need a dictionary; any other
  value that is not \<open>None\<close> has no such methods.
\<close>

definition alt_color :: "runtime \<Rightarrow> config \<Rightarrow> error + channel" where
  "alt_color rt cfg =
     (let extra_color_kwargs = [];
          cm = colormap cfg
      in
        (case (if cm \<noteq> PNone then
                 (case cm of
                    PDict m \<Rightarrow>
                      Inr (AList.update (lit ''scale'')
                             (obj [(lit ''domain'', PList (dict_keys m)),
                                   (lit ''range'', PList (dict_values m))])
                             extra_color_kwargs)
                  | _ \<Rightarrow> Inl AttributeError)
               else Inr extra_color_kwargs) of
           Inl e \<Rightarrow> Inl e
         | Inr extra_color_kwargs \<Rightarrow>
             (let extra_color_kwargs =
                    (if truthy (manual_legend cfg)
                     then AList.update (lit ''legend'') PNone extra_color_kwargs
                     else extra_color_kwargs)
              in Inr (Field (py_str rt (colorby cfg) @ lit '':N'') extra_color_kwargs))))"

section \<open>Content, tooltip and event layers\<close>

text \<open>The \<open>layers\<close> dictionary of \<open>compile\<close>: layer name to layer, in insertion order.\<close>

type_synonym layers = "(pystr \<times> layer) list"

definition make_line_layer :: "runtime \<Rightarrow> config \<Rightarrow> layer \<Rightarrow> error + layer" where
  \<open>make_line_layer rt cfg base =
     (case alt_color rt cfg of
        Inl e \<Rightarrow> Inl e
      | Inr color \<Rightarrow>
          (let kwargs = [(lit ''x'', get_x cfg (lit ''x:Q'')), (lit ''y'', get_y cfg (lit ''y:Q'') []),
                         (lit ''detail'', alt_detail rt cfg), (lit ''color'', color)];
               kwargs =
                 (if \<not> truthy (cfg_get cfg ''lines'' (PBool False)) then
                    AList.update (lit ''opacity'') (Value (PInt 0)) kwargs
                  else
                    AList.update (lit ''opacity'')
                      (Condition (Expr (in_focus_or_none_selected rt cfg))
                         (Value (PInt 1))
                         (Value (cfg_get cfg ''unfocused_opacity''
                                   (PFloat DEFAULT_UNFOCUSED_OPACITY))))
                      kwargs);
               line_layer = encode kwargs (set_mark (lit ''line'') [(lit ''size'', PInt 3)] base);
               line_layer = transform_filter (Expr (lit ''datum.y !== null'')) line_layer;
               line_layer =
                 transform_filter
                   (Expr (lit ''datum.x_type == "'' @ normal_type @ lit ''"'')) line_layer;
               line_layer =
                 (if py_eq (yscale cfg) (PStr (lit ''log''))
                  then transform_filter (Expr (lit ''datum.y > 0'')) line_layer
                  else line_layer)
           in Inr line_layer))\<close>

definition make_point_layer :: "runtime \<Rightarrow> config \<Rightarrow> layer \<Rightarrow> pyval \<Rightarrow> bool \<Rightarrow> error + layer" where
  \<open>make_point_layer rt cfg base point_size is_fake =
     (case alt_color rt cfg of
        Inl e \<Rightarrow> Inl e
      | Inr color \<Rightarrow>
          (let kwargs = [(lit ''x'', get_x cfg (lit ''x:Q'')), (lit ''y'', get_y cfg (lit ''y:Q'') []),
                         (lit ''detail'', alt_detail rt cfg), (lit ''color'', color)];
               kwargs =
                 (if \<not> truthy (cfg_get cfg ''points'' (PBool False)) \<or> is_fake then
                    AList.update (lit ''opacity'') (Value (PInt 0)) kwargs
                  else
                    AList.update (lit ''opacity'')
                      (Condition (Expr (in_focus_or_none_selected rt cfg))
                         (Value (PFloat 0.4))
                         (Value (cfg_get cfg ''unfocused_opacity''
                                   (PFloat DEFAULT_UNFOCUSED_OPACITY))))
                      kwargs);
               point_layer =
                 encode kwargs
                   (set_mark (lit ''point'')
                      [(lit ''size'', point_size), (lit ''filled'', PBool True)] base);
               point_layer = transform_filter (Expr (lit ''datum.y !== null'')) point_layer;
               point_layer =
                 transform_filter
                   (Expr (lit ''datum.x_type == "'' @ normal_type @ lit ''"'')) point_layer;
               point_layer =
                 (if py_eq (yscale cfg) (PStr (lit ''log''))
                  then transform_filter (Expr (lit ''datum.y > 0'')) point_layer
                  else point_layer);
               point_layer =
                 (if is_fake \<and> \<not> truthy (manual_legend cfg)
                  then transform_filter (Expr (in_focus_or_none_selected rt cfg)) point_layer
                  else point_layer)
           in Inr point_layer))\<close>

definition make_tooltip_text_layer :: "runtime \<Rightarrow> config \<Rightarrow> layer \<Rightarrow> selection \<Rightarrow> layer" where
  \<open>make_tooltip_text_layer rt cfg point_layer cursor_sel =
     transform_filter (Expr (in_focus rt cfg))
       (transform_calculate
          [(lit ''tooltip_text'',
            lit ''datum.'' @ py_str rt (detailby cfg) @ lit '' + ": " + datum.y'')]
          (encode
             [(lit ''text'',
               Condition (by_selection cursor_sel) (Field (lit ''tooltip_text:N'') [])
                 (Value (PStr (lit '' '')))),
              (lit ''opacity'', Value (PInt 1)),
              (lit ''color'', Value (PStr (lit ''black'')))]
             (set_mark (lit ''text'')
                [(lit ''align'', PStr (lit ''left'')), (lit ''dx'', PInt 5), (lit ''dy'', PInt 45),
                 (lit ''font'', font cfg)]
                point_layer)))\<close>

definition icon_base :: "config \<Rightarrow> dataframe \<Rightarrow> layer \<Rightarrow> int \<Rightarrow> layer" where
  \<open>icon_base cfg df base sz =
     (let ycol = (if df (lit ''event_index'') \<noteq> None then lit ''event_index_y'' else lit ''y'');
          ret =
            encode
              [(lit ''x'', get_x cfg (lit ''x:Q'')), (lit ''y'', get_y cfg (ycol @ lit '':Q'') []),
               (lit ''opacity'', Value (PInt 1)), (lit ''url'', Field (lit ''image_url'') [])]
              (set_mark (lit ''image'') [(lit ''height'', PInt sz), (lit ''width'', PInt sz)]
                 base)
      in if df (lit ''event_index'') \<noteq> None then
           transform_calculate
             [(ycol,
               lit ''exp(log(datum.y) + (2 * (datum.event_index % 2) - 1) * ceil(datum.event_index / 2) * .8)'')]
             ret
         else ret)\<close>

definition collect_lockdown_icon_layers :: "config \<Rightarrow> dataframe \<Rightarrow> layers \<Rightarrow> layer \<Rightarrow> layers" where
  \<open>collect_lockdown_icon_layers cfg df layers base =
     (let icons = icon_base cfg df base 25 in
      if df (lit ''Coverage'') \<noteq> None then
        (let layers =
               AList.update (lit ''statewide_lockdown_icons'')
                 (transform_filter (Expr (lit ''datum.Coverage == "Statewide"'')) icons) layers
         in AList.update (lit ''regional_lockdown_icons'')
              (transform_filter (Expr (lit ''datum.Coverage != "Statewide"''))
                 (icon_base cfg df base 20))
              layers)
      else AList.update (lit ''lockdown_icons'') icons layers)\<close>

definition make_lockdown_rules_layer :: "runtime \<Rightarrow> config \<Rightarrow> layer \<Rightarrow> bool \<Rightarrow> error + layer" where
  \<open>make_lockdown_rules_layer rt cfg base do_mark =
     (let base =
            (if do_mark
             then set_mark (lit ''rule'')
                    [(lit ''size'', PInt 3), (lit ''strokeDash'', PList [PInt 7, PInt 3])] base
             else base)
      in case alt_color rt cfg of
           Inl e \<Rightarrow> Inl e
         | Inr color \<Rightarrow>
             Inr (encode
                    [(lit ''x'', get_x cfg (lit ''x:Q'')), (lit ''detail'', alt_detail rt cfg),
                     (lit ''color'', color)]
                    base))\<close>

definition lockdown_tooltip_base :: "config \<Rightarrow> dataframe \<Rightarrow> layer \<Rightarrow> channel \<Rightarrow> layer" where
  \<open>lockdown_tooltip_base cfg df base tooltip =
     (let ret =
            transform_calculate
              [(lit ''lockdown_tooltip_text'',
                lit ''datum.lockdown_type + " " + "(" + datum.lockdown_date + ")"'')]
              (encode
                 [(lit ''x'', get_x cfg (lit ''x:Q'')), (lit ''y'', get_y cfg (lit ''y:Q'') []),
                  (lit ''text'', tooltip), (lit ''color'', Value (PStr (lit ''black'')))]
                 (set_mark (lit ''text'')
                    [(lit ''align'', PStr (lit ''left'')), (lit ''dx'', PInt 15), (lit ''dy'', PInt 0),
                     (lit ''font'', font cfg), (lit ''fontWeight'', PInt 600)]
                    base))
      in if df (lit ''event_index'') \<noteq> None
         then transform_filter (Expr (lit ''datum.event_index == 0'')) ret
         else ret)\<close>

definition binding_checkbox :: "pystr \<Rightarrow> pyval" where
  "binding_checkbox name = obj [(lit ''input'', PStr (lit ''checkbox'')), (lit ''name'', PStr name)]"

definition checkbox_selection :: "pystr \<Rightarrow> pystr \<Rightarrow> bool \<Rightarrow> selection" where
  "checkbox_selection label name init =
     \<lparr>sel_type = lit ''single'',
      sel_args = [(lit ''bind'', binding_checkbox label), (lit ''name'', PStr name),
                  (lit ''init'', obj [(lit ''values'', PBool init)])]\<rparr>"

definition collect_lockdown_tooltip_layers ::
  "config \<Rightarrow> dataframe \<Rightarrow> layers \<Rightarrow> layer \<Rightarrow> selection \<Rightarrow> layers" where
  \<open>collect_lockdown_tooltip_layers cfg df layers base cursor_sel =
     (let lockdown_tooltip_text = lit ''lockdown_tooltip_text'';
          empty_if_checkbox = lit ''empty_if_checkbox'';
          hover_layer =
            lockdown_tooltip_base cfg df base
              (Condition (by_selection cursor_sel) (Field (empty_if_checkbox @ lit '':N'') [])
                 (Value (PStr (lit '' ''))));
          event_select =
            (if truthy (cfg_get cfg ''event_select'' (PBool False))
             then Some (checkbox_selection (lit ''Show all intervention details '')
                          (lit ''events'') False)
             else None);
          calculate_kwargs =
            (if event_select \<noteq> None
             then [(empty_if_checkbox,
                    show_events @ lit '' ? " " : datum.'' @ lockdown_tooltip_text)]
             else [(empty_if_checkbox, lit ''datum.'' @ lockdown_tooltip_text)]);
          hover_layer =
            (case event_select of
               Some es \<Rightarrow> add_selection es hover_layer
             | None \<Rightarrow> hover_layer);
          hover_layer =
            (if df (lit ''Coverage'') \<noteq> None then
               add_selection
                 (checkbox_selection (lit ''Hide regional intervention icons '')
                    (lit ''hide_regional_icons'') False)
                 hover_layer
             else hover_layer);
          hover_layer = transform_calculate calculate_kwargs hover_layer;
          layers = AList.update (lit ''hover_layer'') hover_layer layers
      in if event_select \<noteq> None then
           AList.update (lit ''event_checkbox_layer'')
             (transform_filter (Expr show_events)
                (lockdown_tooltip_base cfg df base (Field (lockdown_tooltip_text @ lit '':N'') [])))
             layers
         else layers)\<close>

definition collect_tooltip_layers ::
  "runtime \<Rightarrow> config \<Rightarrow> dataframe \<Rightarrow> layers \<Rightarrow> layer \<Rightarrow> selection \<Rightarrow> error + layers" where
  \<open>collect_tooltip_layers rt cfg df layers base cursor_sel =
     (if \<not> truthy (cfg_get cfg ''has_tooltips'' (PBool False)) then Inr layers
      else
        (case (if truthy (cfg_get cfg ''tooltip_points'' (PBool False)) then
                 (case map_of layers (lit ''points'') of
                    None \<Rightarrow> Inl (KeyError (PStr (lit ''points'')))
                  | Some points \<Rightarrow>
                      Inr (AList.update (lit ''tooltip_points'')
                             (transform_filter (Expr (in_focus rt cfg))
                                (encode
                                   [(lit ''opacity'',
                                     Condition (by_selection cursor_sel) (Value (PInt 1))
                                       (Value (PInt 0)))]
                                   (set_mark (lit ''point'') [(lit ''filled'', PBool True)] points)))
                             layers))
               else Inr layers) of
           Inl e \<Rightarrow> Inl e
         | Inr layers \<Rightarrow>
        (case (if truthy (cfg_get cfg ''tooltip_text'' (PBool False)) then
                 (case map_of layers (lit ''points'') of
                    None \<Rightarrow> Inl (KeyError (PStr (lit ''points'')))
                  | Some points \<Rightarrow>
                      Inr (AList.update (lit ''tooltip_text'')
                             (make_tooltip_text_layer rt cfg points cursor_sel) layers))
               else Inr layers) of
           Inl e \<Rightarrow> Inl e
         | Inr layers \<Rightarrow>
        (let layers =
               (if truthy (cfg_get cfg ''tooltip_rules'' PNone) then
                  AList.update (lit ''tooltip_rules'')
                    (transform_filter (Expr (someone_has_focus rt cfg))
                       (transform_filter (by_selection cursor_sel)
                          (encode [(lit ''x'', Field (lit ''x:Q'') [])]
                             (set_mark (lit ''rule'') [(lit ''color'', PStr (lit ''gray''))] base))))
                    layers
                else layers);
             lockdown_base =
               transform_filter (Expr (in_focus rt cfg))
                 (transform_filter
                    (Expr (lit ''datum.x_type == "'' @ lockdown_type @ lit ''"'')) base);
             lockdown_base =
               (if df (lit ''Coverage'') \<noteq> None then
                  transform_filter
                    (Expr (lit ''datum.Coverage == "Statewide" || !'' @ hide_regional_icons))
                    lockdown_base
                else lockdown_base);
             has_lockdown_rules = cfg_get cfg ''lockdown_rules'' (PBool False);
             has_lockdown_icons = cfg_get cfg ''lockdown_icons'' (PBool False)
         in
           (case (if truthy has_lockdown_rules then
                    (case make_lockdown_rules_layer rt cfg lockdown_base True of
                       Inl e \<Rightarrow> Inl e
                     | Inr rules \<Rightarrow> Inr (AList.update (lit ''lockdown_rules'') rules layers))
                  else Inr layers) of
              Inl e \<Rightarrow> Inl e
            | Inr layers \<Rightarrow>
                (let layers =
                       (if truthy has_lockdown_icons
                        then collect_lockdown_icon_layers cfg df layers lockdown_base
                        else layers)
                 in if truthy has_lockdown_rules \<or> truthy has_lockdown_icons
                       \<or> truthy (cfg_get cfg ''lockdown_tooltips'' (PBool False))
                    then Inr (collect_lockdown_tooltip_layers cfg df layers lockdown_base
                                cursor_sel)
                    else Inr layers))))))\<close>

section \<open>The extrapolation layer\<close>

text \<open>\<open>v[1]\<close> on a configuration value.\<close>

definition subscript1 :: "pyval \<Rightarrow> error + pyval" where
  "subscript1 v =
     (case v of
        PList xs \<Rightarrow> (if 1 < length xs then Inr (xs ! 1) else Inl IndexError)
      | PStr s \<Rightarrow> (if 1 < length s then Inr (PStr [s ! 1]) else Inl IndexError)
      | PDict d \<Rightarrow> (case dict_get d (PInt 1) of Some x \<Rightarrow> Inr x | None \<Rightarrow> Inl (KeyError (PInt 1)))
      | _ \<Rightarrow> Inl TypeError)"

definition add_model_transformation_fields :: "runtime \<Rightarrow> config \<Rightarrow> layer \<Rightarrow> error + layer" where
  \<open>add_model_transformation_fields rt cfg base_chart =
     (let ret =
            transform_calculate
              [(lit ''model_y'',
                lit ''datum.lockdown_y * pow(datum.lockdown_slope, datum.x - datum.lockdown_x)'')]
           (transform_filter
              (Expr (lit ''datum.xmax - datum.lockdown_x >= ''
                       @ py_str rt (cfg_get cfg ''min_trend_line_days''
                                      (PInt DEFAULT_MIN_TREND_LINE_DAYS))))
           (transform_filter (Expr (lit ''datum.lockdown_x > datum.x_start''))
           (transform_filter (Expr (lit ''datum.x >= datum.lockdown_x''))
           (transform_filter (Expr (lit ''datum.lockdown_slope !== null''))
           (transform_filter (Expr (lit ''datum.lockdown_y !== null''))
           (transform_filter (Expr (lit ''datum.y !== null''))
           (transform_filter (Expr (lit ''datum.lockdown_x != null''))
           (transform_filter (Expr (show_trends cfg)) base_chart))))))))
      in case entries cfg ''ydomain'' of
           Some ydomain \<Rightarrow>
             (if truthy (cfg_get cfg ''extrap_clip_to_ydomain'' (PBool False)) then
                (case subscript1 ydomain of
                   Inl e \<Rightarrow> Inl e
                 | Inr upper \<Rightarrow>
                     Inr (transform_filter
                            (Expr (lit ''datum.model_y <= '' @ py_str rt upper)) ret))
              else Inr ret)
         | None \<Rightarrow> Inr ret)\<close>

definition make_lockdown_extrapolation_layer :: "runtime \<Rightarrow> config \<Rightarrow> layer \<Rightarrow> error + layer" where
  \<open>make_lockdown_extrapolation_layer rt cfg base =
     (case alt_color rt cfg of
        Inl e \<Rightarrow> Inl e
      | Inr color \<Rightarrow>
          (case add_model_transformation_fields rt cfg
                  (encode
                     [(lit ''x'', get_x cfg (lit ''x:Q'')),
                      (lit ''y'', get_y cfg (lit ''model_y:Q'') []),
                      (lit ''detail'', alt_detail rt cfg),
                      (lit ''color'', color)]
                     (set_mark (lit ''line'')
                        [(lit ''size'', PInt 5), (lit ''strokeDash'', PList [PInt 1, PInt 1])]
                        base)) of
             Inl e \<Rightarrow> Inl e
           | Inr ret \<Rightarrow> Inr (transform_filter (Expr (in_focus rt cfg)) ret)))\<close>

definition make_extrapolation_tooltip_layer ::
  "config \<Rightarrow> layer \<Rightarrow> selection \<Rightarrow> selection \<Rightarrow> layer" where
  \<open>make_extrapolation_tooltip_layer cfg extrap cursor_sel trend_select =
     (let hover_only = truthy (cfg_get cfg ''only_show_extrapolation_tooltip_on_hover'' (PBool False));
          text =
            (if hover_only
             then Condition (by_selection cursor_sel) (Field (lit ''extrap_text:N'') [])
                    (Value (PStr (lit '' '')))
             else Field (lit ''extrap_text:N'') []);
          x = (if hover_only then lit ''x:Q'' else lit ''max(x):Q'');
          y = (if hover_only then lit ''model_y:Q'' else lit ''max(model_y):Q'')
      in add_selection trend_select
           (transform_calculate [(lit ''extrap_text'', lit ''"Original trend"'')]
              (transform_filter (Expr (show_trends cfg))
                 (encode
                    [(lit ''x'', get_x cfg x), (lit ''y'', get_y cfg y []), (lit ''text'', text),
                     (lit ''opacity'', Value (PInt 1)),
                     (lit ''color'', Value (PStr (lit ''black'')))]
                    (set_mark (lit ''text'')
                       [(lit ''align'', PStr (lit ''center'')), (lit ''dx'', PInt 0),
                        (lit ''dy'', PInt (- 5)), (lit ''font'', font cfg)]
                       extrap)))))\<close>

section \<open>The manual legend\<close>

text \<open>Python's \<open><=\<close> on strings: lexicographic by code point.\<close>

fun str_le :: "pystr \<Rightarrow> pystr \<Rightarrow> bool" where
  "str_le [] t = True"
| "str_le (c # s) [] = False"
| "str_le (c # s) (d # t) = (c < d \<or> (c = d \<and> str_le s t))"

text \<open>
  Sorting values: strings compare with strings and numbers with numbers; a sequence that
  mixes them, or holds \<open>None\<close>, cannot be sorted.
\<close>

definition is_str :: "pyval \<Rightarrow> bool" where
  "is_str v = (case v of PStr s \<Rightarrow> True | _ \<Rightarrow> False)"

definition sortable :: "pyval list \<Rightarrow> bool" where
  "sortable vs = (list_all is_str vs \<or> list_all (\<lambda>v. num_of v \<noteq> None) vs)"

definition val_le :: "pyval \<Rightarrow> pyval \<Rightarrow> bool" where
  "val_le a b =
     (case (a, b) of
        (PStr s, PStr t) \<Rightarrow> str_le s t
      | _ \<Rightarrow> (case (num_of a, num_of b) of (Some x, Some y) \<Rightarrow> x \<le> y | _ \<Rightarrow> False))"

fun insort_val :: "pyval \<Rightarrow> pyval list \<Rightarrow> pyval list" where
  "insort_val v [] = [v]"
| "insort_val v (w # ws) = (if val_le v w then v # w # ws else w # insort_val v ws)"

definition sort_values :: "pyval list \<Rightarrow> error + pyval list" where
  "sort_values vs = (if sortable vs then Inr (foldr insort_val vs []) else Inl TypeError)"

text \<open>
  \<open>df.groupby(by).first().reset_index().sort_values(by)\<close>: one row for each distinct
  non-null cell of the column \<open>by\<close>, in ascending order; in every other column the row
  holds the first non-null cell of the group.
\<close>

definition group_keys :: "pyval list \<Rightarrow> error + pyval list" where
  "group_keys key_cells =
     (case unique (filter (\<lambda>c. c \<noteq> PNone) key_cells) of
        Inl e \<Rightarrow> Inl e
      | Inr ks \<Rightarrow> sort_values ks)"

definition first_in_group :: "pyval list \<Rightarrow> pyval list \<Rightarrow> pyval \<Rightarrow> pyval" where
  "first_in_group key_cells cells g =
     (case filter (\<lambda>(k, v). py_eq k g \<and> v \<noteq> PNone) (zip key_cells cells) of
        [] \<Rightarrow> PNone
      | (k, v) # rest \<Rightarrow> v)"

definition grouped_col ::
  "dataframe \<Rightarrow> pyval \<Rightarrow> pyval list \<Rightarrow> pyval list \<Rightarrow> pystr \<Rightarrow> error + pyval list" where
  "grouped_col df by key_cells keys col =
     (if PStr col = by then Inr keys
      else
        (case df col of
           None \<Rightarrow> Inl (KeyError (PStr col))
         | Some cells \<Rightarrow> Inr (map (first_in_group key_cells cells) keys)))"

text \<open>
  The first half of \<open>_make_manual_legend\<close>: the legend's own table \<open>leg_df\<close>. The dictionary
  handed to \<open>pd.DataFrame\<close> is built key by key; an unhashable key raises.
\<close>

definition manual_legend_table :: "runtime \<Rightarrow> config \<Rightarrow> dataframe \<Rightarrow> error + pydict" where
  \<open>manual_legend_table rt cfg df =
     (case getattr rt cfg ''colorby'' of
        Inl e \<Rightarrow> Inl e
      | Inr by \<Rightarrow>
     (case df_col df by of
        Inl e \<Rightarrow> Inl e
      | Inr key_cells \<Rightarrow>
     (case group_keys key_cells of
        Inl e \<Rightarrow> Inl e
      | Inr keys \<Rightarrow>
          let group_names = keys in
          if MAX_LEGEND_MARKS < length group_names then
            Inl (ValueError
                   (lit ''max '' @ str_int (int MAX_LEGEND_MARKS) @ lit '' supported for now (''
                      @ str_int (int (length group_names)) @ lit '' requested)''))
          else
            (let idx = map (\<lambda>k. PInt (int MAX_LEGEND_MARKS + 1 - int k))
                         [0..<length group_names];
                 row_type = replicate (length idx) (PStr (lit ''normal''));
                 idx = idx @ [PInt (int MAX_LEGEND_MARKS + 2)];
                 row_type = row_type @ [PStr (lit ''title'')];
                 group_names =
                   group_names @
                     [PStr (lit ''Select ''
                              @ py_str rt (cfg_get cfg ''readable_group_name'' (PStr (lit ''line''))))];
                 xs = map (\<lambda>i. PInt 0) idx
             in
               (case grouped_col df by key_cells keys (lit ''group_idx'') of
                  Inl e \<Rightarrow> Inl e
                | Inr group_idx \<Rightarrow>
                    if \<not> hashable (colorby cfg) then Inl TypeError
                    else
                      Inr (foldl (\<lambda>d (k, v). dict_set d k v) []
                             [(PStr (lit ''idx''), PList idx),
                              (PStr (lit ''group_idx''), PList (group_idx @ [PInt (- 1)])),
                              (colorby cfg, PList group_names),
                              (PStr (lit ''x''), PList xs),
                              (PStr (lit ''row_type''), PList row_type)]))))))\<close>

definition legend_axis :: pyval where
  \<open>legend_axis =
     obj [(lit ''domain'', PBool False), (lit ''ticks'', PBool False),
          (lit ''orient'', PStr (lit ''right'')), (lit ''grid'', PBool False),
          (lit ''labels'', PBool False)]\<close>

definition legend_base ::
  "runtime \<Rightarrow> config \<Rightarrow> layer \<Rightarrow> (pystr \<times> channel) list \<Rightarrow> error + layer" where
  \<open>legend_base rt cfg base extra_kwargs =
     (case alt_color rt cfg of
        Inl e \<Rightarrow> Inl e
      | Inr color \<Rightarrow>
          Inr (encode
                 ([(lit ''x'',
                    Field (lit ''x:Q'')
                      [(lit ''title'', PStr []), (lit ''axis'', legend_axis),
                       (lit ''scale'', obj [(lit ''domain'', PList [PInt (- 5), PInt 20])])]),
                   (lit ''y'',
                    Field (lit ''idx:Q'')
                      [(lit ''title'', PStr []), (lit ''axis'', legend_axis),
                       (lit ''scale'',
                        obj [(lit ''domain'', PList [PInt 0, PInt (int MAX_LEGEND_MARKS)])])]),
                   (lit ''color'', color),
                   (lit ''detail'', alt_detail rt cfg)] @ extra_kwargs)
                 base))\<close>

definition make_manual_legend ::
  "runtime \<Rightarrow> config \<Rightarrow> dataframe \<Rightarrow> selection \<Rightarrow> error + layer list" where
  \<open>make_manual_legend rt cfg df click_selection =
     (case manual_legend_table rt cfg df of
        Inl e \<Rightarrow> Inl e
      | Inr leg_df \<Rightarrow>
     (let base = Chart (Table leg_df) [(lit ''height'', height cfg), (lit ''width'', PInt 100)] in
      case legend_base rt cfg base
             [(lit ''opacity'',
               Condition (Expr (click_focused_or_none_selected rt cfg)) (Value (PInt 1))
                 (Value (PFloat 0.4)))] of
        Inl e \<Rightarrow> Inl e
      | Inr legend_points \<Rightarrow>
     (let legend_points =
            set_mark (lit ''point'')
              [(lit ''shape'', PStr (lit ''diamond'')), (lit ''filled'', PBool True),
               (lit ''size'', PInt 160)]
              legend_points;
          legend_points =
            transform_filter (Expr (lit ''datum.row_type == "normal"'')) legend_points;
          cursor_sel =
            \<lparr>sel_type = lit ''single'',
             sel_args = [(lit ''name'', PStr (lit ''legend_hover'')), (lit ''nearest'', PBool True),
                         (lit ''on'', PStr (lit ''mouseover'')),
                         (lit ''clear'', PStr (lit ''mouseout'')),
                         (lit ''fields'', PList [PStr (lit ''group_idx'')]),
                         (lit ''empty'', PStr (lit ''none''))]\<rparr>
      in
     (case legend_base rt cfg base [] of
        Inl e \<Rightarrow> Inl e
      | Inr hover_base \<Rightarrow>
     (case legend_base rt cfg base [] of
        Inl e \<Rightarrow> Inl e
      | Inr title_base \<Rightarrow>
          Inr [legend_points,
               add_selection click_selection
                 (transform_calculate
                    [(lit ''padded_text'',
                      lit ''"__" + datum.'' @ py_str rt (colorby cfg) @ lit '' + "__"'')]
                    (encode
                       [(lit ''text'', Field (lit ''padded_text:N'') []),
                        (lit ''opacity'', Value (PInt 0))]
                       (set_mark (lit ''text'') [(lit ''align'', PStr (lit ''left''))]
                          legend_points))),
               add_selection cursor_sel
                 (set_mark (lit ''point'') [(lit ''size'', PInt 0)] hover_base),
               encode
                 [(lit ''text'', Field (py_str rt (colorby cfg) @ lit '':N'') []),
                  (lit ''color'', Value (PStr (lit ''black''))),
                  (lit ''opacity'',
                   Condition (Expr (in_focus_or_none_selected rt cfg)) (Value (PInt 1))
                     (Value (PFloat 0.4)))]
                 (set_mark (lit ''text'')
                    [(lit ''align'', PStr (lit ''left'')), (lit ''dx'', PInt 10),
                     (lit ''font'', font cfg)]
                    legend_points),
               transform_filter (Expr (lit ''datum.row_type == "title"''))
                 (encode
                    [(lit ''text'', Field (py_str rt (colorby cfg) @ lit '':N'') []),
                     (lit ''color'', Value (PStr (lit ''black'')))]
                    (set_mark (lit ''text'')
                       [(lit ''align'', PStr (lit ''left'')), (lit ''dx'', PInt (- 10)),
                        (lit ''dy'', PInt (- 5)), (lit ''font'', font cfg),
                        (lit ''fontSize'', PInt 16)]
                       title_base))])))))\<close>

section \<open>The emoji legend\<close>

text \<open>
  \<open>emojis_flattened\<close>: the code points of every cell, one after the other. Iterating over
  a cell needs a string.
\<close>

fun flatten_emojis :: "pyval list \<Rightarrow> error + nat list" where
  "flatten_emojis [] = Inr []"
| "flatten_emojis (PStr s # cells) =
     (case flatten_emojis cells of Inl e \<Rightarrow> Inl e | Inr rest \<Rightarrow> Inr (s @ rest))"
| "flatten_emojis (v # cells) = Inl TypeError"

fun insort_str :: "pystr \<Rightarrow> pystr list \<Rightarrow> pystr list" where
  "insort_str s [] = [s]"
| "insort_str s (t # ts) = (if str_le s t then s # t # ts else t # insort_str s ts)"

text \<open>\<open>sorted(set(tokens) - {none_glyph})\<close>.\<close>

definition none_glyph :: pystr where
  "none_glyph = [0x1F6AB]"

definition sorted_tokens :: "pystr list \<Rightarrow> pystr list" where
  "sorted_tokens toks = foldr insort_str (remdups (filter (\<lambda>t. t \<noteq> none_glyph) toks)) []"

text \<open>\<open>v // 4\<close> and \<open>v + 2\<close> on a configuration value.\<close>

definition floordiv4 :: "pyval \<Rightarrow> error + pyval" where
  "floordiv4 v =
     (case v of
        PInt i \<Rightarrow> Inr (PInt (i div 4))
      | PBool b \<Rightarrow> Inr (PInt ((if b then 1 else 0) div 4))
      | PFloat r \<Rightarrow> Inr (PFloat (of_int \<lfloor>r / 4\<rfloor>))
      | _ \<Rightarrow> Inl TypeError)"

definition add2 :: "pyval \<Rightarrow> error + pyval" where
  "add2 v =
     (case v of
        PInt i \<Rightarrow> Inr (PInt (i + 2))
      | PBool b \<Rightarrow> Inr (PInt ((if b then 1 else 0) + 2))
      | PFloat r \<Rightarrow> Inr (PFloat (r + 2))
      | _ \<Rightarrow> Inl TypeError)"

text \<open>
  The description of each emoji is looked up by the renderer, in an object literal
  written into the calculate expression.
\<close>

definition emoji_descriptions :: "(pystr \<times> string) list" where
  "emoji_descriptions =
     [([0x1F468, 0x200D, 0x1F469, 0x200D, 0x1F467, 0x200D, 0x1F466], ''Gatherings banned''),
      ([0x1F3E0], ''Stay-at-home order''),
      ([0x1F354], ''Restaurant closures''),
      ([0x1F3EC], ''Business closures''),
      ([0x26A0, 0xFE0F], ''Emergency declaration''),
      ([0x1F393], ''School closures''),
      ([0x1F6E9], ''Travel restrictions''),
      ([0x1F4BC], ''Visitor/Border restrictions''),
      ([0x1F6C3], ''Forgot what this meant'')]"

definition emoji_and_description :: pystr where
  \<open>emoji_and_description =
     lit ''datum.emoji + " " + {''
     @ concat (map (\<lambda>(e, d). lit ''"'' @ e @ lit ''": "'' @ lit d @ lit ''", '') emoji_descriptions)
     @ lit ''}[datum.emoji]''\<close>

definition separator_y :: "nat \<Rightarrow> error + pystr" where
  "separator_y num_emoji_rows =
     (if num_emoji_rows = 1 then Inr (lit ''2'')
      else if num_emoji_rows = 2 then Inr (lit ''4'')
      else if num_emoji_rows = 3 then Inr (lit ''7'')
      else Inl (KeyError (PInt (int num_emoji_rows))))"

text \<open>The tokens of the legend, up to the capacity check.\<close>

definition emoji_tokens :: "dataframe \<Rightarrow> error + pystr list" where
  \<open>emoji_tokens df =
     (case df_col df (PStr (lit ''emoji'')) of
        Inl e \<Rightarrow> Inl e
      | Inr cells \<Rightarrow>
     (case unique (filter (\<lambda>c. c \<noteq> PNone) cells) of
        Inl e \<Rightarrow> Inl e
      | Inr emojis \<Rightarrow>
     (case flatten_emojis emojis of
        Inl e \<Rightarrow> Inl e
      | Inr emojis_flattened \<Rightarrow>
     (case emoji_gen emojis_flattened of
        Inl e \<Rightarrow> Inl e
      | Inr toks \<Rightarrow>
          (let emojis = sorted_tokens toks in
           if MAX_EMOJI_LEGEND_MARKS < length emojis then
             Inl (ValueError
                    (lit ''max '' @ str_int (int MAX_EMOJI_LEGEND_MARKS) @ lit '' supported for now''))
           else Inr emojis)))))\<close>

definition collect_emoji_legend_layers ::
  "runtime \<Rightarrow> config \<Rightarrow> dataframe \<Rightarrow> layers \<Rightarrow> error + layers" where
  \<open>collect_emoji_legend_layers rt cfg df layers =
     (case emoji_tokens df of
        Inl e \<Rightarrow> Inl e
      | Inr emojis \<Rightarrow>
     (let idx = map (\<lambda>k. PInt (int k)) [0..<length emojis + 1];
          row_type = replicate (length emojis) (PStr (lit ''normal'')) @ [PStr (lit ''title'')];
          emojis = emojis @ [lit ''Intervention type''];
          leg_df =
            [(PStr (lit ''idx''), PList idx),
             (PStr (lit ''emoji''), PList (map PStr emojis)),
             (PStr (lit ''zero''), PList (map (\<lambda>i. PInt 0) idx)),
             (PStr (lit ''row_type''), PList row_type)];
          base =
            encode [(lit ''color'', Value (PStr (lit ''black'')))]
              (Chart (Table leg_df) [(lit ''height'', height cfg), (lit ''width'', width cfg)])
      in
     (case getattr rt cfg ''xdomain'' of
        Inl e \<Rightarrow> Inl e
      | Inr xdomain \<Rightarrow>
     (case subscript1 xdomain of
        Inl e \<Rightarrow> Inl e
      | Inr upper \<Rightarrow>
     (case floordiv4 upper of
        Inl e \<Rightarrow> Inl e
      | Inr quarter \<Rightarrow>
     (case add2 quarter of
        Inl e \<Rightarrow> Inl e
      | Inr step \<Rightarrow>
     (let layers =
            AList.update (lit ''marks'')
              (transform_calculate
                 [(lit ''x'', lit ''5 + (datum.idx % 3) * '' @ py_str rt step),
                  (lit ''y'', lit ''1.5 * pow(1.7, floor(datum.idx / 3))'')]
                 (transform_filter (Expr (lit ''datum.row_type == "normal"''))
                    (transform_calculate [(lit ''emoji_and_description'', emoji_and_description)]
                       (encode
                          [(lit ''x'', get_x cfg (lit ''x:Q'')),
                           (lit ''y'', get_y cfg (lit ''y:Q'') []),
                           (lit ''text'', Field (lit ''emoji_and_description:N'') [])]
                          (set_mark (lit ''text'')
                             [(lit ''align'', PStr (lit ''left'')), (lit ''font'', font cfg),
                              (lit ''fontSize'', PInt 12)]
                             base)))))
              layers;
          num_emoji_rows = (length emojis + 2) div 3
      in
     (case separator_y num_emoji_rows of
        Inl e \<Rightarrow> Inl e
      | Inr sep_y \<Rightarrow>
          Inr (AList.update (lit ''emoji_legend_sep'')
                 (transform_calculate [(lit ''y'', sep_y)]
                    (encode
                       [(lit ''y'', get_y cfg (lit ''y:Q'') []),
                        (lit ''color'', Value (PStr (lit ''gray'')))]
                       (set_mark (lit ''rule'')
                          [(lit ''strokeWidth'', PFloat 0.5),
                           (lit ''strokeDash'', PList [PInt 1, PInt 0])]
                          base)))
                 layers)))))))))\<close>

section \<open>The compiler\<close>

record chart =
  layer_seq :: "layer list"
  facet :: "pystr option"
  interactive :: bool
  title :: "pyval option"
  side_legend :: "layer list option"
  background :: pyval
  axis_title_font_size :: pyval
  title_font :: pyval
  legend_symbol :: "pystr option"
  theme_font :: pyval

text \<open>The click selection, with the dropdown of native-legend mode.\<close>

definition make_click_selection :: "runtime \<Rightarrow> config \<Rightarrow> dataframe \<Rightarrow> error + selection" where
  \<open>make_click_selection rt cfg df =
     (case (if \<not> truthy (manual_legend cfg) then
              (case (if truthy (cfg_get cfg ''click_selection'' (PBool False)) then
                       (case df_col df (detailby cfg) of
                          Inl e \<Rightarrow> Inl e
                        | Inr cells \<Rightarrow>
                            (case unique cells of
                               Inl e \<Rightarrow> Inl e
                             | Inr groups \<Rightarrow>
                                 Inr ([PStr EMPTY_SELECTION] @ groups,
                                      lit ''Select ''
                                        @ py_str rt
                                            (cfg_get cfg ''readable_group_name''
                                               (cfg_get cfg ''detailby'' (PStr (lit ''group''))))
                                        @ lit '': '')))
                     else Inr ([PStr EMPTY_SELECTION], lit '' '')) of
                 Inl e \<Rightarrow> Inl e
               | Inr (dropdown_options, dropdown_name) \<Rightarrow>
                   Inr [(lit ''bind'',
                         obj [(lit ''input'', PStr (lit ''select'')),
                              (lit ''options'', PList dropdown_options),
                              (lit ''name'', PStr dropdown_name)])])
            else Inr []) of
        Inl e \<Rightarrow> Inl e
      | Inr extra_click_selection_kwargs \<Rightarrow>
          (let click_init = cfg_get cfg ''click_selection_init'' PNone;
               extra_click_selection_kwargs =
                 (if click_init \<noteq> PNone then
                    (let click_init = PDict [(detailby cfg, click_init)];
                         click_init =
                           (if truthy (manual_legend cfg) then PList [click_init] else click_init)
                     in AList.update (lit ''init'') click_init extra_click_selection_kwargs)
                  else extra_click_selection_kwargs);
               selection_type =
                 (if truthy (manual_legend cfg) then lit ''multi'' else lit ''single'')
           in
             if click_init \<noteq> PNone \<and> \<not> hashable (detailby cfg) then Inl TypeError
             else
               Inr \<lparr>sel_type = selection_type,
                    sel_args =
                      [(lit ''fields'', PList [detailby cfg]), (lit ''on'', PStr (lit ''click'')),
                       (lit ''name'', PStr click), (lit ''empty'', PStr (lit ''all'')),
                       (lit ''clear'', PStr (lit ''dblclick''))]
                      @ extra_click_selection_kwargs\<rparr>))\<close>

definition cursor_selection :: "config \<Rightarrow> selection" where
  \<open>cursor_selection cfg =
     \<lparr>sel_type = lit ''single'',
      sel_args =
        [(lit ''name'', PStr cursor), (lit ''nearest'', PBool True),
         (lit ''on'', PStr (lit ''mouseover'')), (lit ''fields'', PList [PStr (lit ''x'')]),
         (lit ''empty'', PStr (lit ''none''))]
        @ (if truthy (manual_legend cfg) then [(lit ''clear'', PStr (lit ''mouseout''))] else [])\<rparr>\<close>

definition legend_selection :: "config \<Rightarrow> selection" where
  \<open>legend_selection cfg =
     \<lparr>sel_type = lit ''multi'',
      sel_args =
        [(lit ''fields'', PList [colorby cfg]), (lit ''on'', PStr (lit ''click'')),
         (lit ''name'', PStr legend), (lit ''empty'', PStr (lit ''all'')),
         (lit ''bind'', PStr (lit ''legend'')), (lit ''clear'', PStr (lit ''dblclick''))]\<rparr>\<close>

text \<open>The layers up to the content layers, in the order \<open>compile\<close> inserts them.\<close>

definition build_layers ::
  "runtime \<Rightarrow> config \<Rightarrow> dataframe \<Rightarrow> layer \<Rightarrow> selection \<Rightarrow> selection \<Rightarrow> error + layers" where
  \<open>build_layers rt cfg df base click_selection cursor_sel =
     (let layers = [];
          layers =
            AList.update (lit ''fake_interactive'')
              (transform_filter (Expr (lit ''false''))
                 (encode
                    [(lit ''x'', get_x cfg (lit ''x:Q'')), (lit ''y'', get_y cfg (lit ''y:Q'') [])]
                    (set_mark (lit ''line'') [] base)))
              layers
      in
     (case (if \<not> truthy (manual_legend cfg) then
              (case alt_color rt cfg of
                 Inl e \<Rightarrow> Inl e
               | Inr color \<Rightarrow>
                   Inr (AList.update (lit ''legend'')
                          (add_selection (legend_selection cfg)
                             (encode
                                [(lit ''x'', get_x cfg (lit ''x:Q'')),
                                 (lit ''y'', get_y cfg (lit ''y:Q'') []),
                                 (lit ''color'', color)]
                                (set_mark (lit ''point'') [(lit ''size'', PInt 0)] base)))
                          layers))
            else Inr layers) of
        Inl e \<Rightarrow> Inl e
      | Inr layers \<Rightarrow>
     (let layers =
            (if \<not> truthy (manual_legend cfg) then
               AList.update (lit ''selectors'')
                 (add_selection cursor_sel
                    (encode [(lit ''x'', get_x cfg (lit ''x:Q''))]
                       (set_mark (lit ''point'') [(lit ''size'', PInt 0)] base)))
                 layers
             else layers)
      in
     (case make_point_layer rt cfg base (PInt 400) True of
        Inl e \<Rightarrow> Inl e
      | Inr fake_points \<Rightarrow>
     (let layers =
            AList.update (lit ''fake_points'') (add_selection click_selection fake_points) layers
      in
     (case (if truthy (manual_legend cfg) then
              (case make_point_layer rt cfg base (PInt 0) True of
                 Inl e \<Rightarrow> Inl e
               | Inr selectors \<Rightarrow>
                   Inr (AList.update (lit ''selectors'') (add_selection cursor_sel selectors)
                          layers))
            else Inr layers) of
        Inl e \<Rightarrow> Inl e
      | Inr layers \<Rightarrow>
     (case make_line_layer rt cfg base of
        Inl e \<Rightarrow> Inl e
      | Inr lines \<Rightarrow>
     (let layers = AList.update (lit ''lines'') lines layers in
      case make_point_layer rt cfg base
             (cfg_get cfg ''point_size'' (PInt DEFAULT_POINT_SIZE)) False of
        Inl e \<Rightarrow> Inl e
      | Inr points \<Rightarrow> Inr (AList.update (lit ''points'') points layers)))))))))\<close>

text \<open>The base chart of \<open>compile\<close>: the frame with the configured width and height.\<close>

definition base_chart :: "config \<Rightarrow> dataframe \<Rightarrow> layer" where
  "base_chart cfg df =
     Chart (Frame df) [(lit ''width'', width cfg), (lit ''height'', height cfg)]"

text \<open>The block of \<open>compile\<close> under \<open>lockdown_extrapolation\<close>.\<close>

definition add_extrapolation_layers ::
  "runtime \<Rightarrow> config \<Rightarrow> layer \<Rightarrow> selection \<Rightarrow> layers \<Rightarrow> error + layers" where
  \<open>add_extrapolation_layers rt cfg base cursor_sel layers =
     (if truthy (cfg_get cfg ''lockdown_extrapolation'' (PBool False)) then
        (let trend_select =
               checkbox_selection (lit ''Show trend lines for selected '') (lit ''trends'') True
         in case make_lockdown_extrapolation_layer rt cfg base of
              Inl e \<Rightarrow> Inl e
            | Inr model_lines \<Rightarrow>
                Inr (AList.update (lit ''model_tooltip'')
                       (make_extrapolation_tooltip_layer cfg model_lines cursor_sel trend_select)
                       (AList.update (lit ''model_lines'') model_lines layers)))
      else Inr layers)\<close>

text \<open>The block of \<open>compile\<close> under \<open>emoji_legend\<close>.\<close>

definition add_emoji_legend :: "runtime \<Rightarrow> config \<Rightarrow> dataframe \<Rightarrow> layers \<Rightarrow> error + layers" where
  \<open>add_emoji_legend rt cfg df layers =
     (if truthy (cfg_get cfg ''emoji_legend'' (PBool False))
      then collect_emoji_legend_layers rt cfg df layers
      else Inr layers)\<close>

text \<open>
  The end of \<open>compile\<close>: the layers in insertion order, the facet, the pan and zoom
  binding, the title, the manual legend beside the chart, and the cosmetic configuration.
\<close>

definition compose :: "runtime \<Rightarrow> config \<Rightarrow> dataframe \<Rightarrow> selection \<Rightarrow> layers \<Rightarrow> error + chart" where
  \<open>compose rt cfg df click_selection layers =
     (let facetby = cfg_get cfg ''facetby'' PNone in
      case (if truthy (manual_legend cfg) then
              (case make_manual_legend rt cfg df click_selection of
                 Inl e \<Rightarrow> Inl e
               | Inr side \<Rightarrow> Inr (Some side))
            else Inr None) of
        Inl e \<Rightarrow> Inl e
      | Inr side \<Rightarrow>
          Inr \<lparr>layer_seq = map snd layers,
               facet = (if facetby \<noteq> PNone then Some (py_str rt facetby @ lit '':N'') else None),
               interactive = truthy (cfg_get cfg ''interactive'' (PBool False)),
               title =
                 (if truthy (cfg_get cfg ''title'' (PBool False))
                  then Some (cfg_get cfg ''title'' PNone) else None),
               side_legend = side,
               background = cfg_get cfg ''background'' (PStr DEFAULT_BACKGROUND_COLOR),
               axis_title_font_size =
                 cfg_get cfg ''axes_title_fontsize'' (PInt DEFAULT_AXES_TITLE_FONTSIZE),
               title_font = font cfg,
               legend_symbol =
                 (if \<not> truthy (manual_legend cfg) then Some (lit ''diamond'') else None),
               theme_font = font cfg\<rparr>)\<close>

text \<open>
  The body of the \<open>try\<close> block. It changes the configuration only by filling the overlay,
  which the \<open>finally\<close> clause deletes on every exit.
\<close>

definition compile_body :: "runtime \<Rightarrow> config \<Rightarrow> dataframe \<Rightarrow> error + chart" where
  \<open>compile_body rt cfg0 df =
     (case populate_transient_props rt cfg0 df of
        Inl e \<Rightarrow> Inl e
      | Inr cfg \<Rightarrow>
     (case make_click_selection rt cfg df of
        Inl e \<Rightarrow> Inl e
      | Inr click_selection \<Rightarrow>
     (case build_layers rt cfg df (base_chart cfg df) click_selection (cursor_selection cfg) of
        Inl e \<Rightarrow> Inl e
      | Inr layers \<Rightarrow>
     (case collect_tooltip_layers rt cfg df layers (base_chart cfg df) (cursor_selection cfg) of
        Inl e \<Rightarrow> Inl e
      | Inr layers \<Rightarrow>
     (case add_extrapolation_layers rt cfg (base_chart cfg df) (cursor_selection cfg) layers of
        Inl e \<Rightarrow> Inl e
      | Inr layers \<Rightarrow>
     (case add_emoji_legend rt cfg df layers of
        Inl e \<Rightarrow> Inl e
      | Inr layers \<Rightarrow> compose rt cfg df click_selection layers))))))\<close>

text \<open>
  \<open>compile\<close>: the result, and the configuration it leaves behind. Validation runs before
  the overlay is created; after it, the overlay is created empty, and deleted on success
  and on failure alike.
\<close>

definition compile :: "runtime \<Rightarrow> config \<Rightarrow> dataframe \<Rightarrow> (error + chart) \<times> config" where
  "compile rt cfg df =
     (case validate rt cfg df of
        Inl e \<Rightarrow> (Inl e, cfg)
      | Inr u \<Rightarrow>
          (compile_body rt (cfg\<lparr>transient := Some Map.empty\<rparr>) df, cfg\<lparr>transient := None\<rparr>))"

text \<open>The value the overlay holds for a key, if any.\<close>

definition overlay_value :: "config \<Rightarrow> string \<Rightarrow> pyval option" where
  "overlay_value cfg key = (case transient cfg of None \<Rightarrow> None | Some t \<Rightarrow> t key)"

text \<open>Whether a layer declares a colour encoding.\<close>

definition declares_color :: "layer \<Rightarrow> bool" where
  "declares_color l = (map_of (encoding l) (lit ''color'') \<noteq> None)"

text \<open>The names of the first six layers of native-legend mode, in order.\<close>

definition native_layer_names :: "pystr list" where
  "native_layer_names =
     [lit ''fake_interactive'', lit ''legend'', lit ''selectors'', lit ''fake_points'',
      lit ''lines'', lit ''points'']"

section \<open>The trend formula\<close>






section \<open>Concrete inputs\<close>

text \<open>A runtime whose wrapper yields \<open>None\<close> for a missing attribute, and one that raises.\<close>

definition rt0 :: runtime where
  "rt0 = \<lparr>missing_attr = None, str_other = (\<lambda>v. lit ''?''), lower_other = (\<lambda>s. s)\<rparr>"


definition cfg0 :: config where
  "cfg0 = \<lparr>entries = [''lines'' \<mapsto> PBool True, ''click_selection'' \<mapsto> PBool True,
             ''detailby'' \<mapsto> PStr (lit ''state''), ''colorby'' \<mapsto> PStr (lit ''state'')],
           transient = None\<rparr>"

definition df0 :: dataframe where
  "df0 = [lit ''x'' \<mapsto> [PInt 0, PInt 1, PInt 0, PInt 1],
          lit ''y'' \<mapsto> [PInt 5, PInt 7, PInt 2, PInt 3],
          lit ''state'' \<mapsto> [PStr (lit ''CA''), PStr (lit ''CA''), PStr (lit ''NY''),
                               PStr (lit ''NY'')]]"

text \<open>A configuration whose overlay holds a font, a height, a width and the legend flag.\<close>

definition cfg_overlay :: config where
  "cfg_overlay =
     \<lparr>entries = [''font'' \<mapsto> PStr (lit ''Arial''), ''colorby'' \<mapsto> PStr (lit ''state'')],
      transient = Some [''font'' \<mapsto> PStr (lit ''Courier''), ''height'' \<mapsto> PInt 100,
                        ''width'' \<mapsto> PInt 200, ''use_manual_legend'' \<mapsto> PBool True,
                        ''colorby'' \<mapsto> PStr (lit ''Select_state'')]\<rparr>"

text \<open>A partial colour mapping for one of two groups, without and with a default colour.\<close>

definition cfg_colors :: config where
  "cfg_colors =
     \<lparr>entries = [''lines'' \<mapsto> PBool True, ''click_selection'' \<mapsto> PBool True,
                 ''detailby'' \<mapsto> PStr (lit ''state''), ''colorby'' \<mapsto> PStr (lit ''state''),
                 ''colormap'' \<mapsto> PDict [(PStr (lit ''CA''), PStr (lit ''black''))]],
      transient = Some Map.empty\<rparr>"

definition cfg_default_color :: config where
  "cfg_default_color =
     \<lparr>entries = [''lines'' \<mapsto> PBool True, ''click_selection'' \<mapsto> PBool True,
                 ''detailby'' \<mapsto> PStr (lit ''state''), ''colorby'' \<mapsto> PStr (lit ''state''),
                 ''colormap'' \<mapsto> PDict [], ''default_color'' \<mapsto> PStr (lit ''gray'')],
      transient = Some Map.empty\<rparr>"












section \<open>Strings and expressions\<close>

lemma lit_eq_iff: "(lit a = lit b) = (a = b)"
  unfolding lit_def by (simp add: inj_map_eq_map inj_on_def)

lemma lit_append: "lit (a @ b) = lit a @ lit b"
  by (simp add: lit_def)



lemma render_click_is_active: "render (click_is_active_term rt cfg) = click_is_active rt cfg"
  by (simp add: click_is_active_term_def click_is_active_def)

lemma render_legend_is_active: "render (legend_is_active_term rt cfg) = legend_is_active rt cfg"
  by (simp add: legend_is_active_term_def legend_is_active_def old_legend_is_active_def Let_def)

lemma render_click_focused: "render (click_focused_term rt cfg) = click_focused rt cfg"
  by (simp add: click_focused_term_def click_focused_def render_click_is_active)

lemma render_legend_hover_focused:
  "render (legend_hover_focused_term rt cfg) = legend_hover_focused rt cfg"
  by (simp add: legend_hover_focused_term_def legend_hover_focused_def old_legend_focused_def
      render_legend_is_active)

lemma render_in_focus: "render (in_focus_term rt cfg) = in_focus rt cfg"
  by (simp add: in_focus_term_def in_focus_def render_click_focused render_legend_hover_focused)

lemma render_someone_has_focus: "render (someone_has_focus_term rt cfg) = someone_has_focus rt cfg"
  by (simp add: someone_has_focus_term_def someone_has_focus_def render_click_is_active
      render_legend_is_active)

lemma render_in_focus_or_none_selected:
  "render (in_focus_or_none_selected_term rt cfg) = in_focus_or_none_selected rt cfg"
  by (simp add: in_focus_or_none_selected_term_def in_focus_or_none_selected_def
      render_in_focus render_someone_has_focus ensure_parens_def lit_def)

text \<open>
  C6: the expression of \<open>_in_focus_or_none_selected\<close> is \<open>(InFocus || !SomeoneHasFocus)\<close>;
  its truth is that of \<open>InFocus\<close> or not \<open>SomeoneHasFocus\<close>, where \<open>SomeoneHasFocus\<close> is
  \<open>ClickActive\<close> or \<open>LegendActive\<close>; so whenever neither the click nor the legend selection
  is active it is true, whatever the atoms about the datum say.
\<close>

theorem in_focus_or_none_selected_meaning:
  "in_focus_or_none_selected rt cfg
     = lit ''('' @ in_focus rt cfg @ lit '' || !'' @ someone_has_focus rt cfg @ lit '')''
   \<and> render (in_focus_or_none_selected_term rt cfg) = in_focus_or_none_selected rt cfg
   \<and> render (in_focus_term rt cfg) = in_focus rt cfg
   \<and> render (someone_has_focus_term rt cfg) = someone_has_focus rt cfg
   \<and> render (click_is_active_term rt cfg) = click_is_active rt cfg
   \<and> render (legend_is_active_term rt cfg) = legend_is_active rt cfg
   \<and> holds \<sigma> (in_focus_or_none_selected_term rt cfg)
       = (holds \<sigma> (in_focus_term rt cfg) \<or> \<not> holds \<sigma> (someone_has_focus_term rt cfg))
   \<and> holds \<sigma> (someone_has_focus_term rt cfg)
       = (holds \<sigma> (click_is_active_term rt cfg) \<or> holds \<sigma> (legend_is_active_term rt cfg))
   \<and> (\<not> holds \<sigma> (click_is_active_term rt cfg) \<and> \<not> holds \<sigma> (legend_is_active_term rt cfg)
        \<longrightarrow> holds \<sigma> (in_focus_or_none_selected_term rt cfg))"
proof -
  have "in_focus_or_none_selected rt cfg
     = lit ''('' @ in_focus rt cfg @ lit '' || !'' @ someone_has_focus rt cfg @ lit '')''"
    by (simp add: in_focus_or_none_selected_def ensure_parens_def)
  moreover have "holds \<sigma> (in_focus_or_none_selected_term rt cfg)
       = (holds \<sigma> (in_focus_term rt cfg) \<or> \<not> holds \<sigma> (someone_has_focus_term rt cfg))"
    by (simp add: in_focus_or_none_selected_term_def)
  moreover have "holds \<sigma> (someone_has_focus_term rt cfg)
       = (holds \<sigma> (click_is_active_term rt cfg) \<or> holds \<sigma> (legend_is_active_term rt cfg))"
    by (simp add: someone_has_focus_term_def)
  ultimately show ?thesis
    using render_in_focus_or_none_selected [of rt cfg] render_in_focus [of rt cfg]
      render_someone_has_focus [of rt cfg] render_click_is_active [of rt cfg]
      render_legend_is_active [of rt cfg]
    by simp
qed

theorem in_focus_or_none_selected_meaning_witness:
  "holds (\<lambda>s. s = lit ''true'' \<or> s = lit ''isValid(click.state)'') (in_focus_or_none_selected_term rt0 cfg0)"
proof -
  have "\<not> holds (\<lambda>s. s = lit ''true'' \<or> s = lit ''isValid(click.state)'') (click_is_active_term rt0 cfg0)"
    by (simp add: click_is_active_term_def rt0_def cfg0_def py_lower_def py_str_def cfg_get_def lit_def)
  moreover have "\<not> holds (\<lambda>s. s = lit ''true'' \<or> s = lit ''isValid(click.state)'') (legend_is_active_term rt0 cfg0)"
    by (simp add: legend_is_active_term_def rt0_def cfg0_def py_lower_def py_str_def cfg_get_def lit_def manual_legend_def)
  ultimately show ?thesis
    using in_focus_or_none_selected_meaning [of rt0 cfg0 "\<lambda>s. s = lit ''true'' \<or> s = lit ''isValid(click.state)''"] by blast
qed

section \<open>Emoji segmentation\<close>

lemma emoji_loop_spec_scan:
  "emoji_loop cur (is_sep prev) cs = spec_scan cur prev cs"
proof (induction cs arbitrary: cur prev)
  case Nil
  show ?case by simp
next
  case (Cons c cs)
  have step: "emoji_loop tok (is_sep c) cs = spec_scan tok c cs" for tok
    by (rule Cons.IH)
  show ?case
    using step [of "cur @ [c]"] step [of "[c]"]
    by (cases "is_sep c") auto
qed

lemma emoji_gen_agrees_with_rule:
  "\<not> is_sep c \<Longrightarrow> emoji_gen (c # cs) = Inr (spec_segmentation (c # cs))"
  using emoji_loop_spec_scan [of "[c]" c cs]
  by (simp add: emoji_gen_def spec_segmentation_def)

lemma emoji_gen_family_example:
  "emoji_gen [0x1F3E0, 0x1F393, 0x1F468, 0x200D, 0x1F469, 0x200D, 0x1F467, 0x200D, 0x1F466]
     = Inr [[0x1F3E0], [0x1F393], [0x1F468, 0x200D, 0x1F469, 0x200D, 0x1F467, 0x200D, 0x1F466]]"
  by (simp add: emoji_gen_def is_sep_def)

text \<open>
  C5: the generator follows the segmentation rule only from the second code point on:
  \<open>saw_sep\<close> starts as \<open>False\<close> whatever the first code point is. When the sequence begins
  with a joiner, the rule keeps the next code point in the same token (its previous code
  point is a joiner), while the generator yields the joiner alone and starts a new token.
\<close>

theorem emoji_gen_leading_joiner:
  "emoji_gen [0x200D, 0x1F3E0] = Inr [[0x200D], [0x1F3E0]]
   \<and> spec_segmentation [0x200D, 0x1F3E0] = [[0x200D, 0x1F3E0]]"
  by (simp add: emoji_gen_def spec_segmentation_def is_sep_def)

section \<open>Configuration properties\<close>

text \<open>
  C8, as stated, fails: the properties for the font, the height, the width and the manual
  legend flag read the base configuration only, so a value the overlay holds under their
  key is not what they return.
\<close>

theorem overlay_ignored_counterexample:
  "overlay_value cfg_overlay ''font'' = Some (PStr (lit ''Courier''))
   \<and> font cfg_overlay = PStr (lit ''Arial'')
   \<and> overlay_value cfg_overlay ''height'' = Some (PInt 100)
   \<and> height cfg_overlay = PInt 400
   \<and> overlay_value cfg_overlay ''width'' = Some (PInt 200)
   \<and> width cfg_overlay = PInt 600
   \<and> overlay_value cfg_overlay ''use_manual_legend'' = Some (PBool True)
   \<and> manual_legend cfg_overlay = PBool False"
  by (simp add: overlay_value_def cfg_overlay_def font_def height_def width_def
      manual_legend_def cfg_get_def DEFAULT_HEIGHT_def DEFAULT_WIDTH_def lit_eq_iff)

text \<open>
  C8, amended: the colour column, the detail column and the colour mapping are read
  through the overlay: the overlay's value when it has the key, else the base value, else
  \<open>None\<close>. The font, the height, the width and the manual legend flag are the base value
  or their default, whatever the overlay holds. The properties only return a value; none
  of them changes the configuration.
\<close>

theorem overlay_aware_properties:
  "(overlay_value cfg ''colorby'' = Some v \<longrightarrow> colorby cfg = v)
   \<and> (overlay_value cfg ''detailby'' = Some v \<longrightarrow> detailby cfg = v)
   \<and> (overlay_value cfg ''colormap'' = Some v \<longrightarrow> colormap cfg = v)
   \<and> (overlay_value cfg ''colorby'' = None \<longrightarrow> colorby cfg = cfg_get cfg ''colorby'' PNone)
   \<and> (overlay_value cfg ''detailby'' = None \<longrightarrow> detailby cfg = cfg_get cfg ''detailby'' PNone)
   \<and> (overlay_value cfg ''colormap'' = None \<longrightarrow> colormap cfg = cfg_get cfg ''colormap'' PNone)
   \<and> font cfg = (case entries cfg ''font'' of Some w \<Rightarrow> w | None \<Rightarrow> PStr DEFAULT_FONT)
   \<and> height cfg = (case entries cfg ''height'' of Some w \<Rightarrow> w | None \<Rightarrow> PInt DEFAULT_HEIGHT)
   \<and> width cfg = (case entries cfg ''width'' of Some w \<Rightarrow> w | None \<Rightarrow> PInt DEFAULT_WIDTH)
   \<and> manual_legend cfg
       = (case entries cfg ''use_manual_legend'' of Some w \<Rightarrow> w | None \<Rightarrow> PBool False)"
  by (auto simp: overlay_value_def colorby_def detailby_def colormap_def prefer_transient_def
      font_def height_def width_def manual_legend_def cfg_get_def split: option.splits)

theorem overlay_aware_properties_witness:
  "colorby cfg_overlay = PStr (lit ''Select_state'')
   \<and> detailby cfg_overlay = PNone"
proof -
  have "overlay_value cfg_overlay ''colorby'' = Some (PStr (lit ''Select_state''))"
    by (simp add: overlay_value_def cfg_overlay_def)
  moreover have "overlay_value cfg_overlay ''detailby'' = None"
    by (simp add: overlay_value_def cfg_overlay_def)
  moreover have "cfg_get cfg_overlay ''detailby'' PNone = PNone"
    by (simp add: cfg_get_def cfg_overlay_def)
  ultimately show ?thesis
    using overlay_aware_properties [of cfg_overlay "PStr (lit ''Select_state'')"] by simp
qed

section \<open>Validation\<close>



section \<open>Colour assignment\<close>

lemma py_eq_PStr: "py_eq x (PStr s) = (x = PStr s)"
  by (cases x) auto

lemma py_in_PStr: "py_in (PStr s) xs = (PStr s \<in> set xs)"
  by (induction xs) (auto simp: py_in_def py_eq_PStr)

lemma py_eq_refl: "py_eq v v"
proof (induction v)
  case (PList xs)
  then show ?case by (simp add: list_all2_same)
next
  case (PDict m)
  then show ?case by (auto intro!: bexI simp: prod_set_defs)
qed simp_all

lemma dict_set_new: "\<not> dict_has d k \<Longrightarrow> dict_set d k v = d @ [(k, v)]"
  by (induction d) (auto simp: dict_has_def split: if_splits)

lemma dict_get_append:
  "dict_get (a @ b) k = (case dict_get a k of Some v \<Rightarrow> Some v | None \<Rightarrow> dict_get b k)"
  by (induction a) auto

lemma dict_has_append: "dict_has (a @ b) k = (dict_has a k \<or> dict_has b k)"
  by (simp add: dict_has_def dict_get_append split: option.splits)

lemma dict_has_single: "dict_has [(g, v)] k = py_eq g k"
  by (simp add: dict_has_def)

lemma skip_used_result:
  "skip_used idx vals = Inr i \<Longrightarrow>
     idx \<le> i \<and> i < length COLOR_SCHEME \<and> PStr (COLOR_SCHEME ! i) \<notin> set vals
     \<and> (\<forall>j. idx \<le> j \<and> j < i \<longrightarrow> PStr (COLOR_SCHEME ! j) \<in> set vals)"
proof (induction idx vals rule: skip_used.induct)
  case (1 idx vals)
  show ?case
  proof (cases "py_in (PStr (COLOR_SCHEME ! idx)) vals")
    case True
    with "1.prems" have len: "\<not> length COLOR_SCHEME \<le> idx"
      and rec: "skip_used (idx + 1) vals = Inr i"
      by (auto simp: skip_used.simps [of idx] split: if_splits)
    from "1.IH" [OF len True rec] True show ?thesis
      by (auto simp: py_in_PStr le_Suc_eq less_Suc_eq_le dest: le_neq_implies_less)
  next
    case False
    with "1.prems" show ?thesis
      by (auto simp: skip_used.simps [of idx] py_in_PStr split: if_splits)
  qed
qed


lemma dict_values_append: "dict_values (a @ b) = dict_values a @ dict_values b"
  by (simp add: dict_values_def)

lemma assign_colors_ext:
  "assign_colors cm idx dflt gs = Inr cm' \<Longrightarrow>
     \<exists>ext. cm' = cm @ ext
       \<and> set (map fst ext) \<subseteq> set gs
       \<and> (\<forall>k\<in>set (map fst ext). \<not> dict_has cm k)
       \<and> (\<forall>g\<in>set gs. dict_has cm' g)
       \<and> (dflt \<noteq> PNone \<longrightarrow> (\<forall>c\<in>set (map snd ext). c = dflt))
       \<and> (dflt = PNone \<longrightarrow>
            distinct (map snd ext)
            \<and> set (map snd ext) \<inter> set (dict_values cm) = {}
            \<and> set (map snd ext) \<subseteq> PStr ` set COLOR_SCHEME)"
proof (induction gs arbitrary: cm idx)
  case Nil
  then show ?case by simp
next
  case (Cons g gs)
  show ?case
  proof (cases "dict_has cm g")
    case True
    with Cons.prems have "assign_colors cm idx dflt gs = Inr cm'" by simp
    from Cons.IH [OF this] obtain ext where ext: "cm' = cm @ ext"
      "set (map fst ext) \<subseteq> set gs" "\<forall>k\<in>set (map fst ext). \<not> dict_has cm k"
      "\<forall>g\<in>set gs. dict_has cm' g"
      "dflt \<noteq> PNone \<longrightarrow> (\<forall>c\<in>set (map snd ext). c = dflt)"
      "dflt = PNone \<longrightarrow> distinct (map snd ext)
         \<and> set (map snd ext) \<inter> set (dict_values cm) = {}
         \<and> set (map snd ext) \<subseteq> PStr ` set COLOR_SCHEME"
      by blast
    have "dict_has cm' g" using True ext(1) by (simp add: dict_has_append)
    with ext show ?thesis by (intro exI [of _ ext]) auto
  next
    case False
    obtain c i where c: "assign_colors (cm @ [(g, c)]) i dflt gs = Inr cm'"
      and cd: "dflt \<noteq> PNone \<longrightarrow> c = dflt"
      and cp: "dflt = PNone \<longrightarrow> c \<notin> set (dict_values cm) \<and> c \<in> PStr ` set COLOR_SCHEME"
    proof (cases "dflt = PNone")
      case dn: True
      with False Cons.prems obtain i where sk: "skip_used idx (dict_values cm) = Inr i"
        and rec: "assign_colors (dict_set cm g (PStr (COLOR_SCHEME ! i))) (i + 1) dflt gs = Inr cm'"
        by (auto split: sum.splits)
      from skip_used_result [OF sk] have "PStr (COLOR_SCHEME ! i) \<notin> set (dict_values cm)"
        and "i < length COLOR_SCHEME" by auto
      with rec dn False show ?thesis
        by (intro that [of "PStr (COLOR_SCHEME ! i)" "i + 1"]) (auto simp: dict_set_new)
    next
      case dn: False
      with False Cons.prems have "assign_colors (dict_set cm g dflt) idx dflt gs = Inr cm'"
        by simp
      with dn False show ?thesis
        by (intro that [of dflt idx]) (auto simp: dict_set_new)
    qed
    from Cons.IH [OF c] obtain ext where ext: "cm' = (cm @ [(g, c)]) @ ext"
      "set (map fst ext) \<subseteq> set gs" "\<forall>k\<in>set (map fst ext). \<not> dict_has (cm @ [(g, c)]) k"
      "\<forall>g\<in>set gs. dict_has cm' g"
      "dflt \<noteq> PNone \<longrightarrow> (\<forall>c\<in>set (map snd ext). c = dflt)"
      "dflt = PNone \<longrightarrow> distinct (map snd ext)
         \<and> set (map snd ext) \<inter> set (dict_values (cm @ [(g, c)])) = {}
         \<and> set (map snd ext) \<subseteq> PStr ` set COLOR_SCHEME"
      by blast
    have "dict_has ((g, c) # ext) g"
      by (simp add: dict_has_def py_eq_refl)
    then have hg: "dict_has cm' g"
      using ext(1) dict_has_append [of cm "(g, c) # ext" g] by simp
    have keys: "\<forall>k\<in>set (map fst ((g, c) # ext)). \<not> dict_has cm k"
      using ext(3) False by (auto simp: dict_has_append)
    have dist: "dflt = PNone \<longrightarrow> distinct (map snd ((g, c) # ext))
         \<and> set (map snd ((g, c) # ext)) \<inter> set (dict_values cm) = {}
         \<and> set (map snd ((g, c) # ext)) \<subseteq> PStr ` set COLOR_SCHEME"
      using ext(6) cp by (auto simp: dict_values_append dict_values_def)
    show ?thesis
      using ext(1,2,4,5) hg keys dist cd
      by (intro exI [of _ "(g, c) # ext"]) auto
  qed
qed

lemma unused_from_beyond: "length COLOR_SCHEME \<le> idx \<Longrightarrow> unused_from idx vals = {}"
  by (simp add: unused_from_def)

lemma unused_from_skip:
  "idx < length COLOR_SCHEME \<Longrightarrow> PStr (COLOR_SCHEME ! idx) \<in> set vals \<Longrightarrow>
     unused_from idx vals = unused_from (idx + 1) vals"
  by (auto simp: unused_from_def Cons_nth_drop_Suc [symmetric])

lemma skip_used_succeeds:
  "unused_from idx vals \<noteq> {} \<Longrightarrow> \<exists>i. skip_used idx vals = Inr i"
proof (induction idx vals rule: skip_used.induct)
  case (1 idx vals)
  from "1.prems" have len: "\<not> length COLOR_SCHEME \<le> idx"
    using unused_from_beyond by blast
  show ?case
  proof (cases "py_in (PStr (COLOR_SCHEME ! idx)) vals")
    case True
    with len "1.prems" have "unused_from (idx + 1) vals \<noteq> {}"
      using unused_from_skip [of idx vals] by (simp add: py_in_PStr)
    from "1.IH" [OF len True this] len True show ?thesis
      by (simp add: skip_used.simps [of idx])
  next
    case False
    with len show ?thesis by (simp add: skip_used.simps [of idx])
  qed
qed

lemma finite_unused_from: "finite (unused_from idx vals)"
  by (simp add: unused_from_def)

lemma unused_from_step:
  assumes "skip_used idx vals = Inr i"
  shows "unused_from idx vals
           \<subseteq> insert (COLOR_SCHEME ! i) (unused_from (i + 1) (vals @ [PStr (COLOR_SCHEME ! i)]))"
proof
  fix x assume x: "x \<in> unused_from idx vals"
  from skip_used_result [OF assms] have r: "idx \<le> i" "i < length COLOR_SCHEME"
    "\<forall>j. idx \<le> j \<and> j < i \<longrightarrow> PStr (COLOR_SCHEME ! j) \<in> set vals" by auto
  from x have nv: "PStr x \<notin> set vals" and "x \<in> set (drop idx COLOR_SCHEME)"
    by (auto simp: unused_from_def)
  then obtain k where k: "k < length COLOR_SCHEME - idx" "x = COLOR_SCHEME ! (idx + k)"
    by (auto simp: in_set_conv_nth)
  with r(3) nv have ge: "i \<le> idx + k" by (metis le_add1 not_le_imp_less)
  show "x \<in> insert (COLOR_SCHEME ! i) (unused_from (i + 1) (vals @ [PStr (COLOR_SCHEME ! i)]))"
  proof (cases "x = COLOR_SCHEME ! i")
    case True
    then show ?thesis by simp
  next
    case False
    with k ge have gt: "i + 1 \<le> idx + k" by (cases "i = idx + k") auto
    then obtain m where m: "idx + k = (i + 1) + m" using le_Suc_ex by blast
    with k have "x = drop (i + 1) COLOR_SCHEME ! m" "m < length (drop (i + 1) COLOR_SCHEME)"
      by auto
    then have "x \<in> set (drop (i + 1) COLOR_SCHEME)" using nth_mem by metis
    with nv False show ?thesis by (simp add: unused_from_def)
  qed
qed

lemma unused_from_card_step:
  assumes "skip_used idx vals = Inr i"
  shows "card (unused_from idx vals)
           \<le> Suc (card (unused_from (i + 1) (vals @ [PStr (COLOR_SCHEME ! i)])))"
proof -
  have "card (unused_from idx vals)
          \<le> card (insert (COLOR_SCHEME ! i)
                    (unused_from (i + 1) (vals @ [PStr (COLOR_SCHEME ! i)])))"
    using unused_from_step [OF assms] by (intro card_mono finite.insertI finite_unused_from)
  also have "\<dots> \<le> Suc (card (unused_from (i + 1) (vals @ [PStr (COLOR_SCHEME ! i)])))"
    by (simp add: card_insert_if finite_unused_from)
  finally show ?thesis .
qed

lemma length_filter_mono:
  "(\<And>x. x \<in> set xs \<Longrightarrow> P x \<Longrightarrow> Q x) \<Longrightarrow> length (filter P xs) \<le> length (filter Q xs)"
  by (induction xs) auto

lemma assign_colors_default_returns:
  "dflt \<noteq> PNone \<Longrightarrow> \<exists>cm'. assign_colors cm idx dflt gs = Inr cm'"
  by (induction gs arbitrary: cm) auto

lemma assign_colors_palette_returns:
  "length (filter (\<lambda>g. \<not> dict_has cm g) gs) \<le> card (unused_from idx (dict_values cm)) \<Longrightarrow>
     \<exists>cm'. assign_colors cm idx dflt gs = Inr cm'"
proof (induction gs arbitrary: cm idx)
  case Nil
  show ?case by simp
next
  case (Cons g gs)
  show ?case
  proof (cases "dict_has cm g")
    case True
    with Cons.prems Cons.IH [of cm idx] show ?thesis by simp
  next
    case False
    show ?thesis
    proof (cases "dflt = PNone")
      case dn: False
      then show ?thesis using assign_colors_default_returns by blast
    next
      case dn: True
      from False Cons.prems
      have n: "Suc (length (filter (\<lambda>g. \<not> dict_has cm g) gs))
                 \<le> card (unused_from idx (dict_values cm))" by simp
      then have "unused_from idx (dict_values cm) \<noteq> {}" by auto
      from skip_used_succeeds [OF this] obtain i
        where sk: "skip_used idx (dict_values cm) = Inr i" by blast
      let ?c = "PStr (COLOR_SCHEME ! i)"
      have "length (filter (\<lambda>g'. \<not> dict_has (cm @ [(g, ?c)]) g') gs)
              \<le> length (filter (\<lambda>g. \<not> dict_has cm g) gs)"
        by (rule length_filter_mono) (simp add: dict_has_append)
      also from n unused_from_card_step [OF sk]
      have "\<dots> \<le> card (unused_from (i + 1) (dict_values cm @ [?c]))" by simp
      finally have "length (filter (\<lambda>g'. \<not> dict_has (cm @ [(g, ?c)]) g') gs)
              \<le> card (unused_from (i + 1) (dict_values (cm @ [(g, ?c)])))"
        by (simp add: dict_values_def)
      from Cons.IH [OF this] False dn sk show ?thesis
        by (simp add: dict_set_new)
    qed
  qed
qed


lemma COLOR_SCHEME_eq:
  "COLOR_SCHEME =
     map lit
       [''#4e79a7'', ''#f28e2c'', ''#e15759'', ''#76b7b2'', ''#59a14f'', ''#edc949'',
        ''#af7aa1'', ''#ff9da7'', ''#9c755f'', ''#bab0ab'', ''#1f77b4'', ''#ff7f0e'',
        ''#2ca02c'', ''#d62728'', ''#9467bd'', ''#8c564b'', ''#e377c2'', ''#7f7f7f'',
        ''#bcbd22'', ''#17becf'', ''#a6cee3'', ''#1f78b4'', ''#b2df8a'', ''#33a02c'',
        ''#fb9a99'', ''#e31a1c'', ''#fdbf6f'', ''#ff7f00'', ''#cab2d6'', ''#6a3d9a'',
        ''#ffff99'', ''#b15928'', ''#7fc97f'', ''#beaed4'', ''#fdc086'', ''#ffff99'',
        ''#386cb0'', ''#f0027f'', ''#bf5b17'', ''#666666'', ''#1b9e77'', ''#d95f02'',
        ''#7570b3'', ''#e7298a'', ''#66a61e'', ''#e6ab02'', ''#a6761d'', ''#666666'',
        ''red'', ''blue'', ''green'', ''purple'', ''orange'']"
  by (simp add: COLOR_SCHEME_def color_hex_def lit_def upt_conv_Cons)

lemma COLOR_SCHEME_length: "length COLOR_SCHEME = 53"
  by (simp add: COLOR_SCHEME_eq)

lemma populate_transient_colormap_dict:
  assumes "cfg_get cfg ''colormap'' PNone = PDict P"
    and "df_col df (colorby cfg) = Inr cells"
    and "unique cells = Inr groups"
    and "transient cfg = Some t"
  shows "populate_transient_colormap cfg df =
     (case assign_colors P 0 (cfg_get cfg ''default_color'' PNone) groups of
        Inl e \<Rightarrow> Inl e
      | Inr cm1 \<Rightarrow> Inr (cfg\<lparr>transient := Some (t(''colormap'' \<mapsto> PDict cm1))\<rparr>))"
  using assms
  by (simp add: populate_transient_colormap_def py_dict_def set_transient_def Let_def
      split: sum.splits)

text \<open>
  C1, amended. Let the configuration hold a dictionary \<open>P\<close> as its colour mapping, let the
  grouping column exist with the distinct values \<open>groups\<close>, and let the overlay exist.
  \<^item> The assigner returns whenever a default colour is configured, or the palette holds at
    least as many entries that are no colour of \<open>P\<close> as there are groups outside \<open>P\<close>.
  \<^item> When it returns, the mapping it writes into the overlay is \<open>P\<close> followed by new
    entries \<open>ext\<close>; it is the result of \<open>assign_colors\<close> on \<open>P\<close>, the default colour and the
    groups alone; it has a colour for every group; it agrees with \<open>P\<close> on the keys of \<open>P\<close>;
    the new keys are groups outside \<open>P\<close>. With a default colour every new entry has that
    colour. Without one, the new entries have pairwise different colours, none of which
    is a colour of \<open>P\<close>.
\<close>

theorem colormap_assignment:
  assumes cm: "cfg_get cfg ''colormap'' PNone = PDict P"
    and col: "df_col df (colorby cfg) = Inr cells"
    and un: "unique cells = Inr groups"
    and tr: "transient cfg = Some t"
    and dflt: "dflt = cfg_get cfg ''default_color'' PNone"
  shows "(dflt \<noteq> PNone
            \<or> length (filter (\<lambda>g. \<not> dict_has P g) groups) \<le> card (unused_colors (dict_values P))
          \<longrightarrow> (\<exists>cfg'. populate_transient_colormap cfg df = Inr cfg'))
       \<and> (populate_transient_colormap cfg df = Inr cfg' \<longrightarrow>
            (\<exists>ext. cfg' = cfg\<lparr>transient := Some (t(''colormap'' \<mapsto> PDict (P @ ext)))\<rparr>
               \<and> assign_colors P 0 dflt groups = Inr (P @ ext)
               \<and> (\<forall>g\<in>set groups. dict_has (P @ ext) g)
               \<and> (\<forall>k v. dict_get P k = Some v \<longrightarrow> dict_get (P @ ext) k = Some v)
               \<and> set (map fst ext) \<subseteq> set groups
               \<and> (\<forall>k\<in>set (map fst ext). \<not> dict_has P k)
               \<and> (dflt \<noteq> PNone \<longrightarrow> (\<forall>c\<in>set (map snd ext). c = dflt))
               \<and> (dflt = PNone \<longrightarrow>
                    distinct (map snd ext)
                    \<and> set (map snd ext) \<inter> set (dict_values P) = {})))"
proof (intro conjI impI)
  note pop = populate_transient_colormap_dict [OF cm col un tr, folded dflt]
  {
    assume "dflt \<noteq> PNone
      \<or> length (filter (\<lambda>g. \<not> dict_has P g) groups) \<le> card (unused_colors (dict_values P))"
    then have "\<exists>cm'. assign_colors P 0 dflt groups = Inr cm'"
      using assign_colors_default_returns [of dflt P 0 groups]
        assign_colors_palette_returns [of P groups 0 dflt]
      by (auto simp: unused_colors_def)
    then show "\<exists>cfg'. populate_transient_colormap cfg df = Inr cfg'"
      by (auto simp: pop)
  }
  {
    assume "populate_transient_colormap cfg df = Inr cfg'"
    then obtain cm1 where a: "assign_colors P 0 dflt groups = Inr cm1"
      and c: "cfg' = cfg\<lparr>transient := Some (t(''colormap'' \<mapsto> PDict cm1))\<rparr>"
      by (auto simp: pop split: sum.splits)
    from assign_colors_ext [OF a] obtain ext where ext: "cm1 = P @ ext"
      "set (map fst ext) \<subseteq> set groups" "\<forall>k\<in>set (map fst ext). \<not> dict_has P k"
      "\<forall>g\<in>set groups. dict_has cm1 g"
      "dflt \<noteq> PNone \<longrightarrow> (\<forall>c\<in>set (map snd ext). c = dflt)"
      "dflt = PNone \<longrightarrow> distinct (map snd ext)
         \<and> set (map snd ext) \<inter> set (dict_values P) = {}
         \<and> set (map snd ext) \<subseteq> PStr ` set COLOR_SCHEME"
      by blast
    have agree: "\<forall>k v. dict_get P k = Some v \<longrightarrow> dict_get (P @ ext) k = Some v"
      by (simp add: dict_get_append)
    show "\<exists>ext. cfg' = cfg\<lparr>transient := Some (t(''colormap'' \<mapsto> PDict (P @ ext)))\<rparr>
               \<and> assign_colors P 0 dflt groups = Inr (P @ ext)
               \<and> (\<forall>g\<in>set groups. dict_has (P @ ext) g)
               \<and> (\<forall>k v. dict_get P k = Some v \<longrightarrow> dict_get (P @ ext) k = Some v)
               \<and> set (map fst ext) \<subseteq> set groups
               \<and> (\<forall>k\<in>set (map fst ext). \<not> dict_has P k)
               \<and> (dflt \<noteq> PNone \<longrightarrow> (\<forall>c\<in>set (map snd ext). c = dflt))
               \<and> (dflt = PNone \<longrightarrow>
                    distinct (map snd ext)
                    \<and> set (map snd ext) \<inter> set (dict_values P) = {})"
      using a c ext agree by (intro exI [of _ ext]) simp
  }
qed

lemma unique_df0_state:
  "unique [PStr (lit ''CA''), PStr (lit ''CA''), PStr (lit ''NY''), PStr (lit ''NY'')]
     = Inr [PStr (lit ''CA''), PStr (lit ''NY'')]"
  by (simp add: unique_def py_in_def lit_eq_iff)

text \<open>
  C1, as stated, fails: with a default colour configured, the two groups \<open>CA\<close> and \<open>NY\<close>
  outside the (empty) mapping both receive the default colour.
\<close>

theorem colormap_default_color_counterexample:
  "populate_transient_colormap cfg_default_color df0
     = Inr (cfg_default_color\<lparr>transient :=
              Some [''colormap'' \<mapsto> PDict [(PStr (lit ''CA''), PStr (lit ''gray'')),
                                             (PStr (lit ''NY''), PStr (lit ''gray''))]]\<rparr>)"
  by (simp add: populate_transient_colormap_def cfg_default_color_def df0_def cfg_get_def
      py_dict_def df_col_def colorby_def prefer_transient_def unique_df0_state dict_has_def
      set_transient_def lit_eq_iff Let_def)

theorem colormap_assignment_witness:
  "\<exists>ext. populate_transient_colormap cfg_colors df0
           = Inr (cfg_colors\<lparr>transient :=
                    Some [''colormap'' \<mapsto>
                            PDict ([(PStr (lit ''CA''), PStr (lit ''black''))] @ ext)]\<rparr>)
         \<and> dict_has ([(PStr (lit ''CA''), PStr (lit ''black''))] @ ext) (PStr (lit ''NY''))
         \<and> distinct (map snd ext)
         \<and> PStr (lit ''black'') \<notin> set (map snd ext)"
proof -
  let ?P = "[(PStr (lit ''CA''), PStr (lit ''black''))]"
  let ?cells = "[PStr (lit ''CA''), PStr (lit ''CA''), PStr (lit ''NY''), PStr (lit ''NY'')]"
  let ?groups = "[PStr (lit ''CA''), PStr (lit ''NY'')]"
  have cm: "cfg_get cfg_colors ''colormap'' PNone = PDict ?P"
    by (simp add: cfg_get_def cfg_colors_def)
  have col: "df_col df0 (colorby cfg_colors) = Inr ?cells"
    by (simp add: df_col_def colorby_def prefer_transient_def cfg_get_def cfg_colors_def
        df0_def lit_eq_iff)
  have tr: "transient cfg_colors = Some Map.empty"
    by (simp add: cfg_colors_def)
  have dflt: "PNone = cfg_get cfg_colors ''default_color'' PNone"
    by (simp add: cfg_get_def cfg_colors_def)
  have "lit ''#4e79a7'' \<in> unused_colors (dict_values ?P)"
    by (simp add: unused_colors_def unused_from_def COLOR_SCHEME_eq dict_values_def lit_eq_iff)
  then have "0 < card (unused_colors (dict_values ?P))"
    using finite_unused_from [of 0 "dict_values ?P"]
    by (auto simp: card_gt_0_iff unused_colors_def)
  then have enough: "length (filter (\<lambda>g. \<not> dict_has ?P g) ?groups)
                       \<le> card (unused_colors (dict_values ?P))"
    by (simp add: dict_has_def lit_eq_iff)
  note t = colormap_assignment [OF cm col unique_df0_state tr dflt]
  from t [THEN conjunct1] enough obtain cfg'
    where r: "populate_transient_colormap cfg_colors df0 = Inr cfg'" by blast
  from t [of cfg', THEN conjunct2] r obtain ext where
    "cfg' = cfg_colors\<lparr>transient := Some [''colormap'' \<mapsto> PDict (?P @ ext)]\<rparr>"
    "\<forall>g\<in>set ?groups. dict_has (?P @ ext) g"
    "distinct (map snd ext)" "set (map snd ext) \<inter> set (dict_values ?P) = {}"
    by auto
  with r show ?thesis
    by (intro exI [of _ ext]) (auto simp: dict_values_def)
qed

section \<open>Legend capacity\<close>


























section \<open>The extrapolation layer\<close>








section \<open>The emoji legend and the compiler\<close>



lemma update_new_key: "k \<notin> fst ` set xs \<Longrightarrow> AList.update k v xs = xs @ [(k, v)]"
  by (induction xs) auto

lemma map_of_update: "map_of (AList.update k v xs) k = Some v"
  by (simp add: update_conv')



lemmas cfg_simps = cfg_get_def getattr_def prefer_transient_def colorby_def detailby_def
  colormap_def font_def height_def width_def manual_legend_def yscale_def

lemma make_point_layer_returns:
  "alt_color rt cfg = Inr c \<Longrightarrow> \<exists>l. make_point_layer rt cfg base ps fake = Inr l"
  by (simp add: make_point_layer_def Let_def)

lemma make_line_layer_returns:
  "alt_color rt cfg = Inr c \<Longrightarrow> \<exists>l. make_line_layer rt cfg base = Inr l"
  by (simp add: make_line_layer_def Let_def)

lemma build_layers_returns:
  assumes "alt_color rt cfg = Inr c"
  shows "\<exists>ls. build_layers rt cfg df base cs cur = Inr ls"
proof -
  from make_point_layer_returns [OF assms] obtain fp sl po where
    "make_point_layer rt cfg base (PInt 400) True = Inr fp"
    "make_point_layer rt cfg base (PInt 0) True = Inr sl"
    "make_point_layer rt cfg base (cfg_get cfg ''point_size'' (PInt DEFAULT_POINT_SIZE)) False
       = Inr po"
    by meson
  moreover from make_line_layer_returns [OF assms] obtain li where
    "make_line_layer rt cfg base = Inr li" by blast
  ultimately show ?thesis
    by (simp add: build_layers_def assms Let_def)
qed

lemma encoding_simps:
  "encoding (set_mark m args l) = encoding l"
  "encoding (transform_filter p l) = encoding l"
  "encoding (transform_calculate cs l) = encoding l"
  "encoding (add_selection s l) = encoding l"
  "encoding (Chart d args) = []"
  "encoding (encode chans l) = foldl (\<lambda>enc (k, c). AList.update k c enc) (encoding l) chans"
  by (simp_all add: encode_def set_mark_def transform_filter_def transform_calculate_def
      add_selection_def Chart_def)

lemma build_layers_native:
  assumes "build_layers rt cfg df base cs cur = Inr ls" and "\<not> truthy (manual_legend cfg)"
  shows "\<exists>c fp li po.
           alt_color rt cfg = Inr c
         \<and> make_point_layer rt cfg base (PInt 400) True = Inr fp
         \<and> make_line_layer rt cfg base = Inr li
         \<and> make_point_layer rt cfg base (cfg_get cfg ''point_size'' (PInt DEFAULT_POINT_SIZE))
              False = Inr po
         \<and> ls = [(lit ''fake_interactive'',
                   transform_filter (Expr (lit ''false''))
                     (encode
                        [(lit ''x'', get_x cfg (lit ''x:Q'')),
                         (lit ''y'', get_y cfg (lit ''y:Q'') [])]
                        (set_mark (lit ''line'') [] base))),
                  (lit ''legend'',
                   add_selection (legend_selection cfg)
                     (encode
                        [(lit ''x'', get_x cfg (lit ''x:Q'')),
                         (lit ''y'', get_y cfg (lit ''y:Q'') []),
                         (lit ''color'', c)]
                        (set_mark (lit ''point'') [(lit ''size'', PInt 0)] base))),
                  (lit ''selectors'',
                   add_selection cur
                     (encode [(lit ''x'', get_x cfg (lit ''x:Q''))]
                        (set_mark (lit ''point'') [(lit ''size'', PInt 0)] base))),
                  (lit ''fake_points'', add_selection cs fp),
                  (lit ''lines'', li),
                  (lit ''points'', po)]"
  using assms
  by (auto simp: build_layers_def Let_def lit_eq_iff split: sum.splits)


lemma update_after_prefix:
  "k \<notin> set (map fst pre) \<Longrightarrow> AList.update k v (pre @ rest) = pre @ AList.update k v rest"
  by (induction pre) auto

lemma native_layer_names_fresh:
  "lit ''tooltip_points'' \<notin> set native_layer_names"
  "lit ''tooltip_text'' \<notin> set native_layer_names"
  "lit ''tooltip_rules'' \<notin> set native_layer_names"
  "lit ''lockdown_rules'' \<notin> set native_layer_names"
  "lit ''statewide_lockdown_icons'' \<notin> set native_layer_names"
  "lit ''regional_lockdown_icons'' \<notin> set native_layer_names"
  "lit ''lockdown_icons'' \<notin> set native_layer_names"
  "lit ''hover_layer'' \<notin> set native_layer_names"
  "lit ''event_checkbox_layer'' \<notin> set native_layer_names"
  "lit ''model_lines'' \<notin> set native_layer_names"
  "lit ''model_tooltip'' \<notin> set native_layer_names"
  "lit ''marks'' \<notin> set native_layer_names"
  "lit ''emoji_legend_sep'' \<notin> set native_layer_names"
  by (simp_all add: native_layer_names_def lit_eq_iff)

lemma icon_layers_prefix:
  "map fst pre = native_layer_names \<Longrightarrow>
     collect_lockdown_icon_layers cfg df (pre @ rest) base
       = pre @ collect_lockdown_icon_layers cfg df rest base"
  by (simp add: collect_lockdown_icon_layers_def Let_def update_after_prefix
      native_layer_names_fresh)

lemma lockdown_tooltip_layers_prefix:
  "map fst pre = native_layer_names \<Longrightarrow>
     collect_lockdown_tooltip_layers cfg df (pre @ rest) base cur
       = pre @ collect_lockdown_tooltip_layers cfg df rest base cur"
  by (simp add: collect_lockdown_tooltip_layers_def Let_def update_after_prefix
      native_layer_names_fresh)

lemma tooltip_layers_prefix:
  assumes "collect_tooltip_layers rt cfg df (pre @ rest) base cur = Inr ls"
    and pre: "map fst pre = native_layer_names"
  shows "\<exists>rest'. ls = pre @ rest'"
  using assms(1)
  by (auto simp: collect_tooltip_layers_def Let_def update_after_prefix pre
      native_layer_names_fresh icon_layers_prefix lockdown_tooltip_layers_prefix
      split: if_splits sum.splits option.splits)


lemma emoji_layers_prefix:
  assumes "collect_emoji_legend_layers rt cfg df (pre @ rest) = Inr ls"
    and pre: "map fst pre = native_layer_names"
  shows "\<exists>rest'. ls = pre @ rest'"
  using assms(1)
  by (auto simp: collect_emoji_legend_layers_def Let_def update_after_prefix pre
      native_layer_names_fresh split: sum.splits)

lemma declares_color_line:
  "make_line_layer rt cfg base = Inr li \<Longrightarrow> declares_color li"
  by (auto simp: make_line_layer_def Let_def declares_color_def encoding_simps update_conv'
      lit_eq_iff split: sum.splits if_splits)

lemma declares_color_point:
  "make_point_layer rt cfg base ps fake = Inr po \<Longrightarrow> declares_color po"
  by (auto simp: make_point_layer_def Let_def declares_color_def encoding_simps update_conv'
      lit_eq_iff split: sum.splits if_splits)

lemma manual_legend_cong: "entries cfg' = entries cfg \<Longrightarrow> manual_legend cfg' = manual_legend cfg"
  by (simp add: manual_legend_def cfg_get_def)

lemma populate_transient_colormap_entries:
  "populate_transient_colormap cfg df = Inr cfg' \<Longrightarrow> entries cfg' = entries cfg"
  by (auto simp: populate_transient_colormap_def set_transient_def Let_def
      split: if_splits sum.splits option.splits)

lemma set_transient_entries: "set_transient cfg k v = Inr cfg' \<Longrightarrow> entries cfg' = entries cfg"
  by (auto simp: set_transient_def split: option.splits)

lemma populate_transient_props_entries:
  "populate_transient_props rt cfg df = Inr cfg' \<Longrightarrow> entries cfg' = entries cfg"
  by (auto simp: populate_transient_props_def Let_def
      dest!: populate_transient_colormap_entries set_transient_entries
      split: if_splits sum.splits)

lemma sum_case_Inr:
  "(case x of Inl e \<Rightarrow> Inl e | Inr v \<Rightarrow> f v) = Inr r \<Longrightarrow> \<exists>v. x = Inr v \<and> f v = Inr r"
  by (cases x) auto

lemma compile_body_steps:
  assumes "compile_body rt cfg1 df = Inr ch"
  shows "\<exists>cfg' cs ls ls2 ls3 ls4.
           populate_transient_props rt cfg1 df = Inr cfg'
         \<and> make_click_selection rt cfg' df = Inr cs
         \<and> build_layers rt cfg' df (base_chart cfg' df) cs (cursor_selection cfg') = Inr ls
         \<and> collect_tooltip_layers rt cfg' df ls (base_chart cfg' df) (cursor_selection cfg')
              = Inr ls2
         \<and> add_extrapolation_layers rt cfg' (base_chart cfg' df) (cursor_selection cfg') ls2
              = Inr ls3
         \<and> add_emoji_legend rt cfg' df ls3 = Inr ls4
         \<and> compose rt cfg' df cs ls4 = Inr ch"
proof -
  from sum_case_Inr [OF assms [unfolded compile_body_def]]
  obtain cfg' where 1: "populate_transient_props rt cfg1 df = Inr cfg'" and
    r1: "(case make_click_selection rt cfg' df of
        Inl e \<Rightarrow> Inl e
      | Inr click_selection \<Rightarrow>
     (case build_layers rt cfg' df (base_chart cfg' df) click_selection (cursor_selection cfg') of
        Inl e \<Rightarrow> Inl e
      | Inr layers \<Rightarrow>
     (case collect_tooltip_layers rt cfg' df layers (base_chart cfg' df) (cursor_selection cfg') of
        Inl e \<Rightarrow> Inl e
      | Inr layers \<Rightarrow>
     (case add_extrapolation_layers rt cfg' (base_chart cfg' df) (cursor_selection cfg') layers of
        Inl e \<Rightarrow> Inl e
      | Inr layers \<Rightarrow>
     (case add_emoji_legend rt cfg' df layers of
        Inl e \<Rightarrow> Inl e
      | Inr layers \<Rightarrow> compose rt cfg' df click_selection layers))))) = Inr ch"
    by blast
  from sum_case_Inr [OF r1] obtain cs where 2: "make_click_selection rt cfg' df = Inr cs" and
    r2: "(case build_layers rt cfg' df (base_chart cfg' df) cs (cursor_selection cfg') of
        Inl e \<Rightarrow> Inl e
      | Inr layers \<Rightarrow>
     (case collect_tooltip_layers rt cfg' df layers (base_chart cfg' df) (cursor_selection cfg') of
        Inl e \<Rightarrow> Inl e
      | Inr layers \<Rightarrow>
     (case add_extrapolation_layers rt cfg' (base_chart cfg' df) (cursor_selection cfg') layers of
        Inl e \<Rightarrow> Inl e
      | Inr layers \<Rightarrow>
     (case add_emoji_legend rt cfg' df layers of
        Inl e \<Rightarrow> Inl e
      | Inr layers \<Rightarrow> compose rt cfg' df cs layers)))) = Inr ch"
    by blast
  from sum_case_Inr [OF r2] obtain ls where
    3: "build_layers rt cfg' df (base_chart cfg' df) cs (cursor_selection cfg') = Inr ls" and
    r3: "(case collect_tooltip_layers rt cfg' df ls (base_chart cfg' df) (cursor_selection cfg') of
        Inl e \<Rightarrow> Inl e
      | Inr layers \<Rightarrow>
     (case add_extrapolation_layers rt cfg' (base_chart cfg' df) (cursor_selection cfg') layers of
        Inl e \<Rightarrow> Inl e
      | Inr layers \<Rightarrow>
     (case add_emoji_legend rt cfg' df layers of
        Inl e \<Rightarrow> Inl e
      | Inr layers \<Rightarrow> compose rt cfg' df cs layers))) = Inr ch"
    by blast
  from sum_case_Inr [OF r3] obtain ls2 where
    4: "collect_tooltip_layers rt cfg' df ls (base_chart cfg' df) (cursor_selection cfg') = Inr ls2"
    and r4: "(case add_extrapolation_layers rt cfg' (base_chart cfg' df) (cursor_selection cfg') ls2 of
        Inl e \<Rightarrow> Inl e
      | Inr layers \<Rightarrow>
     (case add_emoji_legend rt cfg' df layers of
        Inl e \<Rightarrow> Inl e
      | Inr layers \<Rightarrow> compose rt cfg' df cs layers)) = Inr ch"
    by blast
  from sum_case_Inr [OF r4] obtain ls3 where
    5: "add_extrapolation_layers rt cfg' (base_chart cfg' df) (cursor_selection cfg') ls2 = Inr ls3"
    and r5: "(case add_emoji_legend rt cfg' df ls3 of
        Inl e \<Rightarrow> Inl e
      | Inr layers \<Rightarrow> compose rt cfg' df cs layers) = Inr ch"
    by blast
  from sum_case_Inr [OF r5] obtain ls4 where
    6: "add_emoji_legend rt cfg' df ls3 = Inr ls4" and 7: "compose rt cfg' df cs ls4 = Inr ch"
    by blast
  from 1 2 3 4 5 6 7 show ?thesis by blast
qed

lemma compose_layer_seq: "compose rt cfg df cs ls = Inr ch \<Longrightarrow> layer_seq ch = map snd ls"
  by (auto simp: compose_def Let_def split: sum.splits if_splits)

lemma extrapolation_layers_prefix:
  assumes "add_extrapolation_layers rt cfg base cur (pre @ rest) = Inr ls"
    and pre: "map fst pre = native_layer_names"
  shows "\<exists>rest'. ls = pre @ rest'"
  using assms(1)
  by (auto simp: add_extrapolation_layers_def Let_def update_after_prefix pre
      native_layer_names_fresh split: sum.splits if_splits)

lemma emoji_legend_prefix:
  assumes "add_emoji_legend rt cfg df (pre @ rest) = Inr ls"
    and pre: "map fst pre = native_layer_names"
  shows "\<exists>rest'. ls = pre @ rest'"
  using assms emoji_layers_prefix [of rt cfg df pre rest ls]
  by (auto simp: add_emoji_legend_def split: if_splits)


text \<open>
  C2: whenever \<open>compile\<close> emits a chart in native-legend mode, its layer sequence begins
  with the fake interactive layer, the legend layer, the cursor selectors, the fake
  points, the lines and the points. The fake interactive layer declares no colour
  encoding; the legend layer is the zero-size point layer that declares the colour
  encoding and carries the legend selection, so it is the first layer of the sequence
  with a colour encoding, ahead of the content line and point layers, which declare one
  too.
\<close>

theorem legend_layer_first:
  assumes ok: "fst (compile rt cfg df) = Inr ch"
    and native: "\<not> truthy (manual_legend cfg)"
  shows "\<exists>cfg' color fake_interactive legend_layer selectors fake_points lines points rest.
           validate rt cfg df = Inr ()
         \<and> populate_transient_props rt (cfg\<lparr>transient := Some Map.empty\<rparr>) df = Inr cfg'
         \<and> alt_color rt cfg' = Inr color
         \<and> layer_seq ch
             = fake_interactive # legend_layer # selectors # fake_points # lines # points # rest
         \<and> legend_layer
             = add_selection (legend_selection cfg')
                 (encode
                    [(lit ''x'', get_x cfg' (lit ''x:Q'')),
                     (lit ''y'', get_y cfg' (lit ''y:Q'') []),
                     (lit ''color'', color)]
                    (set_mark (lit ''point'') [(lit ''size'', PInt 0)] (base_chart cfg' df)))
         \<and> make_line_layer rt cfg' (base_chart cfg' df) = Inr lines
         \<and> make_point_layer rt cfg' (base_chart cfg' df)
              (cfg_get cfg' ''point_size'' (PInt DEFAULT_POINT_SIZE)) False = Inr points
         \<and> \<not> declares_color fake_interactive
         \<and> declares_color legend_layer
         \<and> find declares_color (layer_seq ch) = Some legend_layer
         \<and> declares_color lines \<and> declares_color points"
proof -
  let ?cfg1 = "cfg\<lparr>transient := Some Map.empty\<rparr>"
  from ok have v: "validate rt cfg df = Inr ()" and body: "compile_body rt ?cfg1 df = Inr ch"
    by (auto simp: compile_def split: sum.splits)
  from compile_body_steps [OF body] obtain cfg' cs ls ls2 ls3 ls4 where
    p: "populate_transient_props rt ?cfg1 df = Inr cfg'"
    and b: "build_layers rt cfg' df (base_chart cfg' df) cs (cursor_selection cfg') = Inr ls"
    and t: "collect_tooltip_layers rt cfg' df ls (base_chart cfg' df) (cursor_selection cfg')
              = Inr ls2"
    and x: "add_extrapolation_layers rt cfg' (base_chart cfg' df) (cursor_selection cfg') ls2
              = Inr ls3"
    and e: "add_emoji_legend rt cfg' df ls3 = Inr ls4"
    and c: "compose rt cfg' df cs ls4 = Inr ch"
    by blast
  from populate_transient_props_entries [OF p] native
  have native': "\<not> truthy (manual_legend cfg')"
    by (simp add: manual_legend_def cfg_get_def)
  let ?fi = "transform_filter (Expr (lit ''false''))
               (encode
                  [(lit ''x'', get_x cfg' (lit ''x:Q'')),
                   (lit ''y'', get_y cfg' (lit ''y:Q'') [])]
                  (set_mark (lit ''line'') [] (base_chart cfg' df)))"
  let ?sel = "add_selection (cursor_selection cfg')
                (encode [(lit ''x'', get_x cfg' (lit ''x:Q''))]
                   (set_mark (lit ''point'') [(lit ''size'', PInt 0)] (base_chart cfg' df)))"
  from build_layers_native [OF b native'] obtain color fp li po where
    col: "alt_color rt cfg' = Inr color"
    and li: "make_line_layer rt cfg' (base_chart cfg' df) = Inr li"
    and po: "make_point_layer rt cfg' (base_chart cfg' df)
               (cfg_get cfg' ''point_size'' (PInt DEFAULT_POINT_SIZE)) False = Inr po"
    and ls: "ls = [(lit ''fake_interactive'', ?fi),
                   (lit ''legend'',
                    add_selection (legend_selection cfg')
                      (encode
                         [(lit ''x'', get_x cfg' (lit ''x:Q'')),
                          (lit ''y'', get_y cfg' (lit ''y:Q'') []),
                          (lit ''color'', color)]
                         (set_mark (lit ''point'') [(lit ''size'', PInt 0)] (base_chart cfg' df)))),
                   (lit ''selectors'', ?sel),
                   (lit ''fake_points'', add_selection cs fp),
                   (lit ''lines'', li),
                   (lit ''points'', po)]"
    by blast
  let ?lg = "add_selection (legend_selection cfg')
               (encode
                  [(lit ''x'', get_x cfg' (lit ''x:Q'')),
                   (lit ''y'', get_y cfg' (lit ''y:Q'') []),
                   (lit ''color'', color)]
                  (set_mark (lit ''point'') [(lit ''size'', PInt 0)] (base_chart cfg' df)))"
  have names: "map fst ls = native_layer_names"
    by (simp add: ls native_layer_names_def)
  from tooltip_layers_prefix [of rt cfg' df ls "[]" _ _ ls2] t names
  obtain r2 where r2: "ls2 = ls @ r2" by auto
  from extrapolation_layers_prefix [of rt cfg' _ _ ls r2 ls3] x names r2
  obtain r3 where r3: "ls3 = ls @ r3" by auto
  from emoji_legend_prefix [of rt cfg' df ls r3 ls4] e names r3
  obtain r4 where r4: "ls4 = ls @ r4" by auto
  from compose_layer_seq [OF c] r4
  have seq: "layer_seq ch = ?fi # ?lg # ?sel # add_selection cs fp # li # po # map snd r4"
    by (simp add: ls)
  have nfi: "\<not> declares_color ?fi"
    by (simp add: declares_color_def encoding_simps base_chart_def update_conv' lit_eq_iff)
  have dlg: "declares_color ?lg"
    by (simp add: declares_color_def encoding_simps base_chart_def update_conv' lit_eq_iff)
  have fnd: "find declares_color (layer_seq ch) = Some ?lg"
    using nfi dlg by (simp add: seq)
  from v p col seq li po nfi dlg fnd declares_color_line [OF li] declares_color_point [OF po]
  show ?thesis by blast
qed

lemma populate_transient_props_plain:
  "cfg_get cfg ''colormap'' PNone = PNone \<Longrightarrow> cfg_get cfg ''readable_group_name'' PNone = PNone
     \<Longrightarrow> populate_transient_props rt cfg df = Inr cfg"
  by (simp add: populate_transient_props_def populate_transient_colormap_def Let_def)

lemma collect_tooltip_layers_off:
  "\<not> truthy (cfg_get cfg ''has_tooltips'' (PBool False)) \<Longrightarrow>
     collect_tooltip_layers rt cfg df ls base cur = Inr ls"
  by (simp add: collect_tooltip_layers_def)

lemma add_extrapolation_layers_off:
  "\<not> truthy (cfg_get cfg ''lockdown_extrapolation'' (PBool False)) \<Longrightarrow>
     add_extrapolation_layers rt cfg base cur ls = Inr ls"
  by (simp add: add_extrapolation_layers_def)

lemma compose_native:
  "\<not> truthy (manual_legend cfg) \<Longrightarrow> \<exists>ch. compose rt cfg df cs ls = Inr ch"
  by (simp add: compose_def Let_def)

lemma compile_body_plain:
  assumes "cfg_get cfg ''colormap'' PNone = PNone"
    and "cfg_get cfg ''readable_group_name'' PNone = PNone"
    and "make_click_selection rt cfg df = Inr cs"
    and "alt_color rt cfg = Inr c"
    and "\<not> truthy (cfg_get cfg ''has_tooltips'' (PBool False))"
    and "\<not> truthy (cfg_get cfg ''lockdown_extrapolation'' (PBool False))"
    and "\<And>ls. \<exists>ls'. add_emoji_legend rt cfg df ls = Inr ls'"
    and "\<not> truthy (manual_legend cfg)"
  shows "\<exists>ch. compile_body rt cfg df = Inr ch"
proof -
  from build_layers_returns [OF assms(4)] obtain ls where
    ls: "build_layers rt cfg df (base_chart cfg df) cs (cursor_selection cfg) = Inr ls" by blast
  from assms(7) obtain ls' where ls': "add_emoji_legend rt cfg df ls = Inr ls'" by blast
  from compose_native [OF assms(8)] obtain ch where "compose rt cfg df cs ls' = Inr ch" by blast
  then show ?thesis
    by (simp add: compile_body_def populate_transient_props_plain [OF assms(1,2)] assms(3) ls
        collect_tooltip_layers_off [OF assms(5)] add_extrapolation_layers_off [OF assms(6)] ls')
qed

theorem legend_layer_first_witness:
  "\<exists>ch lg. fst (compile rt0 cfg0 df0) = Inr ch
     \<and> find declares_color (layer_seq ch) = Some lg
     \<and> layer_seq ch ! 1 = lg
     \<and> mark lg = Some (lit ''point'') \<and> mark_args lg = [(lit ''size'', PInt 0)]
     \<and> map sel_name (selections lg) = [PStr legend]"
proof -
  let ?cfg = "cfg0\<lparr>transient := Some Map.empty\<rparr>"
  have v: "validate rt0 cfg0 df0 = Inr ()"
    by (simp add: validate_def validate_legend_def detail_color_differ_def cfg_simps cfg0_def
        df0_def X_def Y_def lit_eq_iff Let_def rt0_def)
  have "\<exists>cs. make_click_selection rt0 ?cfg df0 = Inr cs"
    by (simp add: make_click_selection_def cfg_simps cfg0_def Let_def df_col_def df0_def
        lit_eq_iff unique_def py_in_def)
  then obtain cs where cs: "make_click_selection rt0 ?cfg df0 = Inr cs" by blast
  have "\<exists>c. alt_color rt0 ?cfg = Inr c"
    by (simp add: alt_color_def cfg_simps cfg0_def Let_def)
  then obtain c where c: "alt_color rt0 ?cfg = Inr c" by blast
  have flags: "cfg_get ?cfg ''colormap'' PNone = PNone"
    "cfg_get ?cfg ''readable_group_name'' PNone = PNone"
    "\<not> truthy (cfg_get ?cfg ''has_tooltips'' (PBool False))"
    "\<not> truthy (cfg_get ?cfg ''lockdown_extrapolation'' (PBool False))"
    "\<not> truthy (manual_legend ?cfg)"
    "\<And>ls. \<exists>ls'. add_emoji_legend rt0 ?cfg df0 ls = Inr ls'"
    "\<not> truthy (manual_legend cfg0)"
    by (simp_all add: cfg_get_def cfg0_def manual_legend_def add_emoji_legend_def)
  from compile_body_plain [OF flags(1,2) cs c flags(3,4,6,5)]
  obtain ch where b: "compile_body rt0 ?cfg df0 = Inr ch" by blast
  then have ok: "fst (compile rt0 cfg0 df0) = Inr ch"
    by (simp add: compile_def v)
  from legend_layer_first [OF ok flags(7)] obtain cfg' color fi lg rest where
    seq: "layer_seq ch = fi # lg # rest"
    and lg: "lg = add_selection (legend_selection cfg')
                 (encode
                    [(lit ''x'', get_x cfg' (lit ''x:Q'')),
                     (lit ''y'', get_y cfg' (lit ''y:Q'') []),
                     (lit ''color'', color)]
                    (set_mark (lit ''point'') [(lit ''size'', PInt 0)] (base_chart cfg' df0)))"
    and fnd: "find declares_color (layer_seq ch) = Some lg"
    by blast
  have "mark lg = Some (lit ''point'')" "mark_args lg = [(lit ''size'', PInt 0)]"
    "map sel_name (selections lg) = [PStr legend]"
    by (simp_all add: lg set_mark_def encode_def add_selection_def legend_selection_def
        sel_name_def lit_eq_iff base_chart_def Chart_def)
  with ok fnd seq show ?thesis by simp
qed











end
